theory Spec2Isabelle
  imports Main "HOL-Library.Word"
begin

section \<open>Strings\<close>

text \<open>
  A JavaScript string is a sequence of UTF-16 code units. Every character the server's
  literals use lies in the Basic Multilingual Plane, so each is one code unit. Literals
  are written as lists of code units; ASCII text goes through \<open>ascii\<close>.
\<close>

type_synonym ustring = "16 word list"

definition ascii :: "string \<Rightarrow> ustring" where
  "ascii s = map (\<lambda>c. of_nat (of_char c)) s"

text \<open>
  \<open>String.prototype.trim\<close> strips white space and line terminators from both ends:
  TAB, LF, VT, FF, CR, SP, NBSP, U+1680, U+2000..U+200A, U+2028, U+2029, U+202F, U+205F,
  U+3000 and U+FEFF.
\<close>

definition isWhiteSpace :: "16 word \<Rightarrow> bool" where
  "isWhiteSpace c \<longleftrightarrow>
     c \<in> {0x09, 0x0A, 0x0B, 0x0C, 0x0D, 0x20, 0xA0, 0x1680,
          0x2000, 0x2001, 0x2002, 0x2003, 0x2004, 0x2005, 0x2006, 0x2007, 0x2008, 0x2009,
          0x200A, 0x2028, 0x2029, 0x202F, 0x205F, 0x3000, 0xFEFF}"

definition trim :: "ustring \<Rightarrow> ustring" where
  "trim s = rev (dropWhile isWhiteSpace (rev (dropWhile isWhiteSpace s)))"

definition startsWith :: "ustring \<Rightarrow> ustring \<Rightarrow> bool" where
  "startsWith s p \<longleftrightarrow> take (length p) s = p"

text \<open>\<open>s.slice(start)\<close> for a start inside the string or at its end (empty beyond).\<close>

definition str_slice :: "ustring \<Rightarrow> nat \<Rightarrow> ustring" where
  "str_slice s start = drop start s"

section \<open>Location resolver\<close>

text \<open>The 22 canonical names, in the order of the source (U+81FA is the formal "Tai").\<close>

definition VALID_LOCATIONS :: "ustring list" where
  "VALID_LOCATIONS =
    [[0x81FA, 0x5317, 0x5E02], [0x65B0, 0x5317, 0x5E02], [0x6843, 0x5712, 0x5E02],
     [0x81FA, 0x4E2D, 0x5E02], [0x81FA, 0x5357, 0x5E02], [0x9AD8, 0x96C4, 0x5E02],
     [0x57FA, 0x9686, 0x5E02], [0x65B0, 0x7AF9, 0x5E02], [0x65B0, 0x7AF9, 0x7E23],
     [0x82D7, 0x6817, 0x7E23], [0x5F70, 0x5316, 0x7E23], [0x5357, 0x6295, 0x7E23],
     [0x96F2, 0x6797, 0x7E23], [0x5609, 0x7FA9, 0x5E02], [0x5609, 0x7FA9, 0x7E23],
     [0x5C4F, 0x6771, 0x7E23], [0x5B9C, 0x862D, 0x7E23], [0x82B1, 0x84EE, 0x7E23],
     [0x81FA, 0x6771, 0x7E23], [0x6F8E, 0x6E56, 0x7E23], [0x91D1, 0x9580, 0x7E23],
     [0x9023, 0x6C5F, 0x7E23]]"

text \<open>
  The own properties of the object literal \<open>LOCATION_ALIASES\<close>, key and value
  (U+53F0 is the casual "Tai").
\<close>

definition LOCATION_ALIASES :: "(ustring \<times> ustring) list" where
  "LOCATION_ALIASES =
    [([0x53F0, 0x5317, 0x5E02], [0x81FA, 0x5317, 0x5E02]),
     ([0x53F0, 0x4E2D, 0x5E02], [0x81FA, 0x4E2D, 0x5E02]),
     ([0x53F0, 0x5357, 0x5E02], [0x81FA, 0x5357, 0x5E02]),
     ([0x53F0, 0x6771, 0x7E23], [0x81FA, 0x6771, 0x7E23]),
     (ascii ''taipei'', [0x81FA, 0x5317, 0x5E02]),
     (ascii ''newtaipei'', [0x65B0, 0x5317, 0x5E02]),
     (ascii ''taoyuan'', [0x6843, 0x5712, 0x5E02]),
     (ascii ''taichung'', [0x81FA, 0x4E2D, 0x5E02]),
     (ascii ''tainan'', [0x81FA, 0x5357, 0x5E02]),
     (ascii ''kaohsiung'', [0x9AD8, 0x96C4, 0x5E02]),
     (ascii ''keelung'', [0x57FA, 0x9686, 0x5E02]),
     (ascii ''hsinchu_city'', [0x65B0, 0x7AF9, 0x5E02]),
     (ascii ''hsinchu_county'', [0x65B0, 0x7AF9, 0x7E23]),
     (ascii ''miaoli'', [0x82D7, 0x6817, 0x7E23]),
     (ascii ''changhua'', [0x5F70, 0x5316, 0x7E23]),
     (ascii ''nantou'', [0x5357, 0x6295, 0x7E23]),
     (ascii ''yunlin'', [0x96F2, 0x6797, 0x7E23]),
     (ascii ''chiayi_city'', [0x5609, 0x7FA9, 0x5E02]),
     (ascii ''chiayi_county'', [0x5609, 0x7FA9, 0x7E23]),
     (ascii ''pingtung'', [0x5C4F, 0x6771, 0x7E23]),
     (ascii ''yilan'', [0x5B9C, 0x862D, 0x7E23]),
     (ascii ''hualien'', [0x82B1, 0x84EE, 0x7E23]),
     (ascii ''taitung'', [0x81FA, 0x6771, 0x7E23]),
     (ascii ''penghu'', [0x6F8E, 0x6E56, 0x7E23]),
     (ascii ''kinmen'', [0x91D1, 0x9580, 0x7E23]),
     (ascii ''lienchiang'', [0x9023, 0x6C5F, 0x7E23])]"

text \<open>
  \<open>LOCATION_ALIASES[raw]\<close> is a property read on a plain object, so a key that is not
  an own property is looked up on \<open>Object.prototype\<close>. These are its property names;
  each holds a function, except \<open>__proto__\<close>, which yields \<open>Object.prototype\<close> itself.
\<close>

definition OBJECT_PROTOTYPE_KEYS :: "ustring list" where
  "OBJECT_PROTOTYPE_KEYS =
    [ascii ''constructor'', ascii ''__defineGetter__'', ascii ''__defineSetter__'',
     ascii ''hasOwnProperty'', ascii ''__lookupGetter__'', ascii ''__lookupSetter__'',
     ascii ''isPrototypeOf'', ascii ''propertyIsEnumerable'', ascii ''toString'',
     ascii ''valueOf'', ascii ''__proto__'', ascii ''toLocaleString'']"

text \<open>
  The values \<open>normalizeLocation\<close> can return: a string, or the inherited property of
  \<open>Object.prototype\<close> with the given name (not a string).
\<close>

datatype jsval = JStr ustring | JInherited ustring

definition alias_get :: "ustring \<Rightarrow> jsval option" where
  "alias_get k =
     (case map_of LOCATION_ALIASES k of
        Some c \<Rightarrow> Some (JStr c)
      | None \<Rightarrow> if k \<in> set OBJECT_PROTOTYPE_KEYS then Some (JInherited k) else None)"

text \<open>
  \<open>if (x) return x\<close>: \<open>undefined\<close> and the empty string are falsy, every other string
  and every object is truthy.
\<close>

fun if_truthy :: "jsval option \<Rightarrow> jsval option" where
  "if_truthy None = None"
| "if_truthy (Some (JStr s)) = (if s = [] then None else Some (JStr s))"
| "if_truthy (Some (JInherited k)) = Some (JInherited k)"

definition tai_casual :: ustring where
  "tai_casual = [0x53F0]"

definition tai_formal :: ustring where
  "tai_formal = [0x81FA]"

definition normalizeLocation :: "ustring \<Rightarrow> jsval" where
  "normalizeLocation input =
     (if input = [] then JStr []
      else
        let raw = trim input in
        case if_truthy (alias_get raw) of
          Some v \<Rightarrow> v
        | None \<Rightarrow>
            let t = (if startsWith raw tai_casual then tai_formal @ str_slice raw 1 else raw) in
            case if_truthy (alias_get t) of
              Some v \<Rightarrow> v
            | None \<Rightarrow> JStr t)"

text \<open>\<open>Array.prototype.includes\<close> on an array of strings: only an equal string is found.\<close>

fun isValidLocation :: "jsval \<Rightarrow> bool" where
  "isValidLocation (JStr s) = (s \<in> set VALID_LOCATIONS)"
| "isValidLocation (JInherited k) = False"


section \<open>Upstream payload\<close>

text \<open>
  The upstream answer is parsed JSON. It is modelled with the shape the provider
  documents (objects, arrays and strings in their places); any property may be absent,
  which is \<open>None\<close> here and \<open>undefined\<close> in the source.

  A string property may also hold JSON \<open>null\<close>. The handler reads \<open>startTime\<close>,
  \<open>endTime\<close>, \<open>datasetDescription\<close>, \<open>time\<close>, \<open>parameter\<close>, \<open>weatherElement\<close> and
  \<open>location\<close> only through \<open>?.\<close> and \<open>||\<close>, and compares \<open>elementName\<close> with \<open>===\<close>
  against strings, so for these a \<open>null\<close> behaves exactly as an absent property and
  \<open>None\<close> stands for both; likewise a \<open>null\<close> entry of a \<open>time\<close> list behaves as a period
  with no properties. For \<open>parameterName\<close>, which is compared with \<open>undefined\<close>
  and put into a template literal, and for \<open>locationName\<close>, which is passed on, the
  two differ and \<open>null\<close> is a value of its own.
\<close>

datatype json_string = JsonNull | JsonString ustring

record upstream_parameter =
  parameterName :: "json_string option"

record upstream_time =
  t_startTime :: "ustring option"
  t_endTime :: "ustring option"
  t_parameter :: "upstream_parameter option"

record upstream_element =
  elementName :: "ustring option"
  time :: "upstream_time list option"

record upstream_location =
  l_locationName :: "json_string option"
  l_weatherElement :: "upstream_element list option"

record upstream_records =
  datasetDescription :: "ustring option"
  location :: "upstream_location list option"

text \<open>\<open>xs?.[i]\<close>: reading an array past its end yields \<open>undefined\<close>.\<close>

definition elem_at :: "'a list \<Rightarrow> nat \<Rightarrow> 'a option" where
  "elem_at xs i = (if i < length xs then Some (xs ! i) else None)"

text \<open>\<open>v || ""\<close> on an optional string.\<close>

definition or_empty :: "ustring option \<Rightarrow> ustring" where
  "or_empty v = (case v of None \<Rightarrow> [] | Some s \<Rightarrow> s)"

definition pickFirstLocation :: "upstream_records option \<Rightarrow> upstream_location option" where
  "pickFirstLocation records = Option.bind (Option.bind records location) (\<lambda>ls. elem_at ls 0)"

section \<open>Forecast transformer\<close>

record forecast =
  startTime :: ustring
  endTime :: ustring
  weather :: ustring
  rain :: ustring
  minTemp :: ustring
  maxTemp :: ustring
  comfort :: ustring
  windSpeed :: ustring

record weatherData =
  city :: "json_string option"
  updateTime :: ustring
  forecasts :: "forecast list"

definition DEGREE_C :: ustring where
  "DEGREE_C = [0x00B0, 0x0043]"

definition DEFAULT_UPDATE_TIME :: ustring where
  "DEFAULT_UPDATE_TIME =
     [0x4E09, 0x5341, 0x516D, 0x5C0F, 0x6642, 0x5929, 0x6C23, 0x9810, 0x5831]"

text \<open>\<open>element?.time?.[i]?.parameter?.parameterName\<close>\<close>

definition element_value :: "upstream_element \<Rightarrow> nat \<Rightarrow> json_string option" where
  "element_value element i =
     Option.bind (Option.bind (Option.bind (time element) (\<lambda>ts. elem_at ts i)) t_parameter)
       parameterName"

text \<open>\<open>val || ""\<close>: \<open>undefined\<close>, \<open>null\<close> and the empty string are falsy.\<close>

fun value_or_empty :: "json_string option \<Rightarrow> ustring" where
  "value_or_empty None = []"
| "value_or_empty (Some JsonNull) = []"
| "value_or_empty (Some (JsonString v)) = v"

text \<open>
  \<open>val !== undefined && val !== "" ? `${val}<unit>` : ""\<close>: a \<open>null\<close> passes both
  tests, and the template literal prints it as \<open>null\<close>.
\<close>

fun with_unit :: "json_string option \<Rightarrow> ustring \<Rightarrow> ustring" where
  "with_unit None u = []"
| "with_unit (Some JsonNull) u = ascii ''null'' @ u"
| "with_unit (Some (JsonString v)) u = (if v = [] then [] else v @ u)"

text \<open>The body of the inner loop: the \<open>switch\<close> on the element's name, for period \<open>i\<close>.\<close>

definition apply_element :: "nat \<Rightarrow> forecast \<Rightarrow> upstream_element \<Rightarrow> forecast" where
  "apply_element i fc element =
     (let val = element_value element i; name = elementName element in
      if name = Some (ascii ''Wx'') then fc\<lparr>weather := value_or_empty val\<rparr>
      else if name = Some (ascii ''PoP'') \<or> name = Some (ascii ''PoP6h'')
        then fc\<lparr>rain := with_unit val (ascii ''%'')\<rparr>
      else if name = Some (ascii ''MinT'') then fc\<lparr>minTemp := with_unit val DEGREE_C\<rparr>
      else if name = Some (ascii ''MaxT'') then fc\<lparr>maxTemp := with_unit val DEGREE_C\<rparr>
      else if name = Some (ascii ''CI'') then fc\<lparr>comfort := value_or_empty val\<rparr>
      else fc)"

text \<open>One pass of the outer loop: the record pushed for period \<open>i\<close>.\<close>

definition forecast_at :: "upstream_time list \<Rightarrow> upstream_element list \<Rightarrow> nat \<Rightarrow> forecast" where
  "forecast_at baseTimes weatherElements i =
     foldl (apply_element i)
       \<lparr>startTime = or_empty (Option.bind (elem_at baseTimes i) t_startTime),
        endTime = or_empty (Option.bind (elem_at baseTimes i) t_endTime),
        weather = [], rain = [], minTemp = [], maxTemp = [], comfort = [], windSpeed = []\<rparr>
       weatherElements"

text \<open>
  \<open>(weatherElements.find((e) => e.elementName === "Wx") || weatherElements[0])?.time || []\<close>
\<close>

definition base_times :: "upstream_element list \<Rightarrow> upstream_time list" where
  "base_times weatherElements =
     (let wxEl = (case find (\<lambda>e. elementName e = Some (ascii ''Wx'')) weatherElements of
                    Some e \<Rightarrow> Some e
                  | None \<Rightarrow> elem_at weatherElements 0)
      in case Option.bind wxEl time of None \<Rightarrow> [] | Some ts \<Rightarrow> ts)"

text \<open>\<open>locationData.weatherElement || []\<close>\<close>

definition weatherElements_of :: "upstream_location \<Rightarrow> upstream_element list" where
  "weatherElements_of locationData =
     (case l_weatherElement locationData of None \<Rightarrow> [] | Some es \<Rightarrow> es)"

text \<open>Lines 171 to 223 of the handler: the reshaping of one upstream location.\<close>

definition transform :: "upstream_records option \<Rightarrow> upstream_location \<Rightarrow> weatherData" where
  "transform records locationData =
     (let weatherElements = weatherElements_of locationData;
          baseTimes = base_times weatherElements;
          timeCount = length baseTimes
      in \<lparr>city = l_locationName locationData,
          updateTime = (case Option.bind records datasetDescription of
                          None \<Rightarrow> DEFAULT_UPDATE_TIME
                        | Some d \<Rightarrow> if d = [] then DEFAULT_UPDATE_TIME else d),
          forecasts = map (forecast_at baseTimes weatherElements) [0..<timeCount]\<rparr>)"

section \<open>Cache\<close>

text \<open>
  \<open>Date.now()\<close> is passed in as an integer number of milliseconds. The \<open>Map\<close> is a
  partial function from keys to entries; \<open>null\<close> as the result of \<open>getCache\<close> is \<open>None\<close>.
\<close>

record 'v cache_entry =
  expires :: int
  data :: 'v

definition CACHE_TTL_MS :: int where
  "CACHE_TTL_MS = 3 * 60 * 1000"

definition getCache ::
  "int \<Rightarrow> 'k \<Rightarrow> ('k \<rightharpoonup> 'v cache_entry) \<Rightarrow> 'v option \<times> ('k \<rightharpoonup> 'v cache_entry)" where
  "getCache now key cache =
     (case cache key of
        None \<Rightarrow> (None, cache)
      | Some hit \<Rightarrow>
          if now > expires hit then (None, cache(key := None))
          else (Some (data hit), cache))"

definition setCache ::
  "int \<Rightarrow> 'k \<Rightarrow> 'v \<Rightarrow> ('k \<rightharpoonup> 'v cache_entry) \<Rightarrow> ('k \<rightharpoonup> 'v cache_entry)" where
  "setCache now key d cache = cache(key \<mapsto> \<lparr>expires = now + CACHE_TTL_MS, data = d\<rparr>)"


section \<open>Request handler\<close>

text \<open>
  The four places a location can come from. Each is a string when supplied and absent
  otherwise.
\<close>

record request =
  query_city :: "ustring option"
  query_locationName :: "ustring option"
  params_city :: "ustring option"
  params_location :: "ustring option"

text \<open>The truth value of an optional string: \<open>undefined\<close> and \<open>""\<close> are falsy.\<close>

definition truthy :: "ustring option \<Rightarrow> bool" where
  "truthy v \<longleftrightarrow> (case v of None \<Rightarrow> False | Some s \<Rightarrow> s \<noteq> [])"

definition js_or :: "ustring option \<Rightarrow> ustring option \<Rightarrow> ustring option" where
  "js_or a b = (if truthy a then a else b)"

definition KAOHSIUNG :: ustring where
  "KAOHSIUNG = [0x9AD8, 0x96C4, 0x5E02]"

text \<open>
  \<open>req.query.city || req.query.locationName || req.params.city || req.params.location
  || <Kaohsiung>\<close>
\<close>

definition request_input :: "request \<Rightarrow> ustring" where
  "request_input req =
     (case js_or (js_or (js_or (query_city req) (query_locationName req)) (params_city req))
             (params_location req) of
        None \<Rightarrow> KAOHSIUNG
      | Some s \<Rightarrow> if s = [] then KAOHSIUNG else s)"

text \<open>
  What \<open>await axios.get(...)\<close> does, should the handler reach it: the promise resolves
  with a 2xx answer (carrying \<open>response.data?.records\<close>), or rejects with an error that
  has a \<open>response\<close> (a status outside 2xx, with the answer's \<open>data\<close>), or rejects with an
  error that has none (network failure, timeout).
\<close>

type_synonym json_object = "ustring \<rightharpoonup> ustring"

datatype upstream_result =
    Resolved "upstream_records option"
  | Rejected_with_response nat "json_object option"
  | Rejected_without_response

record response_body =
  success :: bool
  error :: "ustring option"
  message :: "ustring option"
  allowed :: "ustring list option"
  tip :: "ustring option"
  body_data :: "weatherData option"
  cached :: "bool option"
  details :: "json_object option"

record response =
  status :: nat
  body :: response_body

text \<open>
  What one run of the handler leaves behind: the response sent, the cache, and the
  \<open>locationName\<close> of every upstream request issued.
\<close>

record outcome =
  sent :: response
  cache_after :: "jsval \<rightharpoonup> weatherData cache_entry"
  upstream_calls :: "jsval list"

definition failure :: "ustring \<Rightarrow> ustring \<Rightarrow> response_body" where
  "failure e m =
     \<lparr>success = False, error = Some e, message = Some m, allowed = None, tip = None,
      body_data = None, cached = None, details = None\<rparr>"

definition succeeded :: "weatherData \<Rightarrow> response_body" where
  "succeeded d =
     \<lparr>success = True, error = None, message = None, allowed = None, tip = None,
      body_data = Some d, cached = None, details = None\<rparr>"

text \<open>
  A value inside a template literal. An inherited property is a built-in function, printed
  with the function's own name: that is the property's name, except for \<open>constructor\<close>,
  which holds the function \<open>Object\<close>. \<open>__proto__\<close> yields \<open>Object.prototype\<close>, printed
  as a plain object.
\<close>

fun to_string :: "jsval \<Rightarrow> ustring" where
  "to_string (JStr s) = s"
| "to_string (JInherited k) =
     (if k = ascii ''__proto__'' then ascii ''[object Object]''
      else if k = ascii ''constructor'' then ascii ''function Object() { [native code] }''
      else ascii ''function '' @ k @ ascii ''() { [native code] }'')"

definition ERR_CONFIG :: ustring where
  "ERR_CONFIG = [0x4F3A, 0x670D, 0x5668, 0x8A2D, 0x5B9A, 0x932F, 0x8AA4]"

definition MSG_CONFIG :: ustring where
  "MSG_CONFIG = [0x8ACB, 0x5728] @ ascii '' .env '' @ [0x6A94, 0x6848, 0x4E2D, 0x8A2D, 0x5B9A]
     @ ascii '' CWA_API_KEY''"

definition ERR_PARAM :: ustring where
  "ERR_PARAM = [0x53C3, 0x6578, 0x932F, 0x8AA4]"

definition MSG_PARAM :: ustring where
  "MSG_PARAM = [0x8ACB, 0x63D0, 0x4F9B] @ ascii '' city '' @ [0x6216]
     @ ascii '' locationName'' @ [0xFF0C, 0x4F8B, 0x5982] @ ascii '' /api/weather?city=''
     @ [0x5B9C, 0x862D, 0x7E23]"

definition ERR_UNSUPPORTED :: ustring where
  "ERR_UNSUPPORTED = [0x5730, 0x5340, 0x4E0D, 0x652F, 0x63F4]"

definition MSG_UNSUPPORTED :: "jsval \<Rightarrow> ustring" where
  "MSG_UNSUPPORTED locationName =
     [0x4E0D, 0x652F, 0x63F4, 0x7684, 0x5730, 0x5340, 0xFF1A] @ to_string locationName"

definition TIP_LOCATIONS :: ustring where
  "TIP_LOCATIONS = [0x8ACB, 0x4F7F, 0x7528] @ ascii '' /api/locations ''
     @ [0x53D6, 0x5F97, 0x53EF, 0x7528, 0x5730, 0x5340, 0x6E05, 0x55AE]"

definition ERR_NOT_FOUND :: ustring where
  "ERR_NOT_FOUND = [0x67E5, 0x7121, 0x8CC7, 0x6599]"

definition MSG_NOT_FOUND :: "jsval \<Rightarrow> ustring" where
  "MSG_NOT_FOUND locationName =
     [0x7121, 0x6CD5, 0x53D6, 0x5F97, 0x0020] @ to_string locationName
     @ [0x0020, 0x5929, 0x6C23, 0x8CC7, 0x6599]"

definition ERR_UPSTREAM :: ustring where
  "ERR_UPSTREAM = ascii ''CWA API '' @ [0x932F, 0x8AA4]"

definition MSG_UPSTREAM_DEFAULT :: ustring where
  "MSG_UPSTREAM_DEFAULT = [0x7121, 0x6CD5, 0x53D6, 0x5F97, 0x5929, 0x6C23, 0x8CC7, 0x6599]"

definition ERR_SERVER :: ustring where
  "ERR_SERVER = [0x4F3A, 0x670D, 0x5668, 0x932F, 0x8AA4]"

definition MSG_SERVER :: ustring where
  "MSG_SERVER =
     [0x7121, 0x6CD5, 0x53D6, 0x5F97, 0x5929, 0x6C23, 0x8CC7, 0x6599, 0xFF0C,
      0x8ACB, 0x7A0D, 0x5F8C, 0x518D, 0x8A66]"

text \<open>\<open>error.response.data?.message || <default>\<close>\<close>

definition upstream_message :: "json_object option \<Rightarrow> ustring" where
  "upstream_message d =
     (case Option.bind d (\<lambda>obj. obj (ascii ''message'')) of
        None \<Rightarrow> MSG_UPSTREAM_DEFAULT
      | Some m \<Rightarrow> if m = [] then MSG_UPSTREAM_DEFAULT else m)"

text \<open>
  The handler. \<open>CWA_API_KEY\<close> is the environment's key, \<open>axios_get\<close> what the upstream
  request does if it is made, \<open>t_lookup\<close> and \<open>t_store\<close> the clock when the cache is
  read and, after the upstream answer, when it is written. A response sent without
  \<open>res.status\<close> has status 200.
\<close>

definition getWeatherByLocation ::
  "ustring option \<Rightarrow> upstream_result \<Rightarrow> int \<Rightarrow> int \<Rightarrow> request
     \<Rightarrow> (jsval \<rightharpoonup> weatherData cache_entry) \<Rightarrow> outcome" where
  "getWeatherByLocation CWA_API_KEY axios_get t_lookup t_store req cache =
     (if \<not> truthy CWA_API_KEY then
        \<lparr>sent = \<lparr>status = 500, body = failure ERR_CONFIG MSG_CONFIG\<rparr>,
         cache_after = cache, upstream_calls = []\<rparr>
      else
        let input = request_input req;
            locationName = normalizeLocation input
        in
        if locationName = JStr [] then
          \<lparr>sent = \<lparr>status = 400, body = failure ERR_PARAM MSG_PARAM\<rparr>,
           cache_after = cache, upstream_calls = []\<rparr>
        else if \<not> isValidLocation locationName then
          \<lparr>sent = \<lparr>status = 400,
                   body = (failure ERR_UNSUPPORTED (MSG_UNSUPPORTED locationName))
                     \<lparr>allowed := Some VALID_LOCATIONS, tip := Some TIP_LOCATIONS\<rparr>\<rparr>,
           cache_after = cache, upstream_calls = []\<rparr>
        else
          case getCache t_lookup locationName cache of
            (Some hit, cache1) \<Rightarrow>
              \<lparr>sent = \<lparr>status = 200, body = (succeeded hit)\<lparr>cached := Some True\<rparr>\<rparr>,
               cache_after = cache1, upstream_calls = []\<rparr>
          | (None, cache1) \<Rightarrow>
              (case axios_get of
                 Resolved records \<Rightarrow>
                   (case pickFirstLocation records of
                      None \<Rightarrow>
                        \<lparr>sent = \<lparr>status = 404,
                                 body = failure ERR_NOT_FOUND (MSG_NOT_FOUND locationName)\<rparr>,
                         cache_after = cache1, upstream_calls = [locationName]\<rparr>
                    | Some locationData \<Rightarrow>
                        let weatherData = transform records locationData in
                        \<lparr>sent = \<lparr>status = 200, body = succeeded weatherData\<rparr>,
                         cache_after = setCache t_store locationName weatherData cache1,
                         upstream_calls = [locationName]\<rparr>)
               | Rejected_with_response st d \<Rightarrow>
                   \<lparr>sent = \<lparr>status = st,
                            body = (failure ERR_UPSTREAM (upstream_message d))
                              \<lparr>details := d\<rparr>\<rparr>,
                    cache_after = cache1, upstream_calls = [locationName]\<rparr>
               | Rejected_without_response \<Rightarrow>
                   \<lparr>sent = \<lparr>status = 500, body = failure ERR_SERVER MSG_SERVER\<rparr>,
                    cache_after = cache1, upstream_calls = [locationName]\<rparr>))"


section \<open>Notions used to state the properties\<close>

text \<open>
  The inner loop runs over every element block, so a field written more than once keeps
  what the last block of its kind wrote. \<open>last_named names es\<close> is that block: the last
  one in \<open>es\<close> whose name is among \<open>names\<close>.
\<close>

definition last_named :: "ustring list \<Rightarrow> upstream_element list \<Rightarrow> upstream_element option" where
  "last_named names es = find (\<lambda>e. elementName e \<in> Some ` set names) (rev es)"

text \<open>The element names the \<open>switch\<close> has a case for.\<close>

definition KNOWN_ELEMENTS :: "ustring list" where
  "KNOWN_ELEMENTS =
     [ascii ''Wx'', ascii ''PoP'', ascii ''PoP6h'', ascii ''MinT'', ascii ''MaxT'', ascii ''CI'']"

text \<open>
  A payload to run the transformer on: two periods of \<open>Wx\<close>; a \<open>PoP\<close> block with
  the first period only; a \<open>MinT\<close> block whose first period has no parameter; a \<open>MaxT\<close>
  block whose second value is the empty string; a \<open>CI\<close> block; and a \<open>WS\<close> block,
  which the transformer has no case for.
\<close>

definition sample_period :: "string \<Rightarrow> string \<Rightarrow> ustring option \<Rightarrow> upstream_time" where
  "sample_period s e v =
     \<lparr>t_startTime = Some (ascii s), t_endTime = Some (ascii e),
      t_parameter = Some \<lparr>parameterName = map_option JsonString v\<rparr>\<rparr>"

definition sample_Wx :: upstream_element where
  "sample_Wx =
     \<lparr>elementName = Some (ascii ''Wx''),
      time = Some [sample_period ''06'' ''18'' (Some [0x6674]),
                   sample_period ''18'' ''06'' (Some [0x591A, 0x96F2])]\<rparr>"

definition sample_PoP :: upstream_element where
  "sample_PoP =
     \<lparr>elementName = Some (ascii ''PoP''),
      time = Some [sample_period ''06'' ''18'' (Some (ascii ''60''))]\<rparr>"

definition sample_MinT :: upstream_element where
  "sample_MinT =
     \<lparr>elementName = Some (ascii ''MinT''),
      time = Some [\<lparr>t_startTime = Some (ascii ''06''), t_endTime = Some (ascii ''18''),
                     t_parameter = None\<rparr>,
                   sample_period ''18'' ''06'' (Some (ascii ''18''))]\<rparr>"

definition sample_MaxT :: upstream_element where
  "sample_MaxT =
     \<lparr>elementName = Some (ascii ''MaxT''),
      time = Some [sample_period ''06'' ''18'' (Some (ascii ''25'')),
                   sample_period ''18'' ''06'' (Some [])]\<rparr>"

definition sample_CI :: upstream_element where
  "sample_CI =
     \<lparr>elementName = Some (ascii ''CI''),
      time = Some [sample_period ''06'' ''18'' (Some (ascii ''fine'')),
                   sample_period ''18'' ''06'' None]\<rparr>"

definition sample_WS :: upstream_element where
  "sample_WS =
     \<lparr>elementName = Some (ascii ''WS''),
      time = Some [sample_period ''06'' ''18'' (Some (ascii ''3'')),
                   sample_period ''18'' ''06'' (Some (ascii ''4''))]\<rparr>"

definition sample_elements :: "upstream_element list" where
  "sample_elements = [sample_Wx, sample_PoP, sample_MinT, sample_MaxT, sample_CI, sample_WS]"

definition sample_location :: upstream_location where
  "sample_location =
     \<lparr>l_locationName = Some (JsonString KAOHSIUNG), l_weatherElement = Some sample_elements\<rparr>"

text \<open>The same location with no \<open>Wx\<close> block, and with no element blocks at all.\<close>

definition sample_no_Wx :: upstream_location where
  "sample_no_Wx =
     \<lparr>l_locationName = Some (JsonString KAOHSIUNG), l_weatherElement = Some [sample_PoP, sample_MinT]\<rparr>"

definition sample_bare :: upstream_location where
  "sample_bare =
     \<lparr>l_locationName = Some (JsonString KAOHSIUNG), l_weatherElement = None\<rparr>"

text \<open>
  Two locations in which \<open>PoP\<close> and \<open>PoP6h\<close> both occur. In the first, \<open>PoP\<close> has the
  value \<open>"60"\<close> and the later \<open>PoP6h\<close> has no \<open>time\<close>. In the second, \<open>PoP\<close> has an empty
  \<open>time\<close> list and the later \<open>PoP6h\<close> has the value \<open>"20"\<close>.
\<close>

definition sample_PoP6h_no_time :: upstream_element where
  "sample_PoP6h_no_time = \<lparr>elementName = Some (ascii ''PoP6h''), time = None\<rparr>"

definition sample_PoP_empty :: upstream_element where
  "sample_PoP_empty = \<lparr>elementName = Some (ascii ''PoP''), time = Some []\<rparr>"

definition sample_PoP6h :: upstream_element where
  "sample_PoP6h =
     \<lparr>elementName = Some (ascii ''PoP6h''),
      time = Some [sample_period ''06'' ''18'' (Some (ascii ''20''))]\<rparr>"

definition sample_overwritten :: upstream_location where
  "sample_overwritten =
     \<lparr>l_locationName = Some (JsonString KAOHSIUNG),
      l_weatherElement = Some [sample_Wx, sample_PoP, sample_PoP6h_no_time]\<rparr>"

definition sample_covered :: upstream_location where
  "sample_covered =
     \<lparr>l_locationName = Some (JsonString KAOHSIUNG),
      l_weatherElement = Some [sample_Wx, sample_PoP_empty, sample_PoP6h]\<rparr>"

definition sample_records :: upstream_records where
  "sample_records =
     \<lparr>datasetDescription = Some (ascii ''36h''), location = Some [sample_location]\<rparr>"

definition sample_bare_records :: upstream_records where
  "sample_bare_records = \<lparr>datasetDescription = None, location = Some [sample_bare]\<rparr>"

text \<open>A request with no location at all, and the same with \<open>?city=\<close> set.\<close>

definition bare_request :: request where
  "bare_request =
     \<lparr>query_city = None, query_locationName = None, params_city = None,
      params_location = None\<rparr>"

definition city_request :: "ustring \<Rightarrow> request" where
  "city_request c = bare_request\<lparr>query_city := Some c\<rparr>"

text \<open>
  Two runs of the handler, one after the other. The first has an empty cache and an
  upstream that answers with the sample payload; the cache is read at time 0 and written
  at time 5. The second runs on the cache the first one left, at time 10, with an
  upstream that does not answer.
\<close>

definition first_run :: outcome where
  "first_run =
     getWeatherByLocation (Some (ascii ''key'')) (Resolved (Some sample_records)) 0 5
       bare_request Map.empty"

definition second_run :: outcome where
  "second_run =
     getWeatherByLocation (Some (ascii ''key'')) Rejected_without_response 10 10
       bare_request (cache_after first_run)"

text \<open>
  The caches a server can hold. It starts with an empty cache, and every run of the
  handler takes the cache the previous run left. \<open>served c seen\<close> says that \<open>c\<close> is such
  a cache and that \<open>seen\<close> are the payloads the upstream has delivered on the way:
  \<open>fetched out ax\<close> is the payload of a run with outcome \<open>out\<close>, if that run issued an
  upstream request and the request resolved.
\<close>

definition fetched :: "outcome \<Rightarrow> upstream_result \<Rightarrow> upstream_records option set" where
  "fetched out ax =
     (case ax of
        Resolved records \<Rightarrow> if upstream_calls out = [] then {} else {records}
      | Rejected_with_response st d \<Rightarrow> {}
      | Rejected_without_response \<Rightarrow> {})"

inductive served ::
  "(jsval \<rightharpoonup> weatherData cache_entry) \<Rightarrow> upstream_records option set \<Rightarrow> bool" where
  start: "served Map.empty {}"
| run: "served c seen \<Longrightarrow> out = getWeatherByLocation key ax t1 t2 req c
        \<Longrightarrow> served (cache_after out) (seen \<union> fetched out ax)"

section \<open>Facts about the tables\<close>

lemma trim_id:
  assumes "s \<noteq> []" and "\<not> isWhiteSpace (hd s)" and "\<not> isWhiteSpace (last s)"
  shows "trim s = s"
proof -
  from assms(1,2) have front: "dropWhile isWhiteSpace s = s"
    by (cases s) simp_all
  from assms(1) obtain y ys where r: "rev s = y # ys"
    by (cases "rev s") simp_all
  from assms(1) have "hd (rev s) = last s"
    by (simp add: hd_rev)
  with r assms(3) have "\<not> isWhiteSpace y"
    by simp
  with r have rear: "dropWhile isWhiteSpace (rev s) = rev s"
    by simp
  show ?thesis
    by (simp add: trim_def front rear)
qed

lemma alias_keys_distinct: "distinct (map fst LOCATION_ALIASES)"
  by (simp add: LOCATION_ALIASES_def ascii_def)

lemma alias_keys_trimmed:
  "\<forall>k \<in> set (map fst LOCATION_ALIASES).
     k \<noteq> [] \<and> \<not> isWhiteSpace (hd k) \<and> \<not> isWhiteSpace (last k)"
  by (simp add: LOCATION_ALIASES_def ascii_def isWhiteSpace_def)

lemma alias_values_canonical:
  "\<forall>c \<in> set (map snd LOCATION_ALIASES). c \<in> set VALID_LOCATIONS"
  by (simp add: LOCATION_ALIASES_def VALID_LOCATIONS_def)

lemma valid_nonempty: "[] \<notin> set VALID_LOCATIONS"
  by (simp add: VALID_LOCATIONS_def)

lemma valid_trimmed:
  "\<forall>c \<in> set VALID_LOCATIONS. \<not> isWhiteSpace (hd c) \<and> \<not> isWhiteSpace (last c)"
  by (simp add: VALID_LOCATIONS_def isWhiteSpace_def)

lemma valid_not_casual: "\<forall>c \<in> set VALID_LOCATIONS. \<not> startsWith c tai_casual"
  by (simp add: VALID_LOCATIONS_def startsWith_def tai_casual_def)

lemma valid_not_alias_key: "\<forall>c \<in> set VALID_LOCATIONS. c \<notin> set (map fst LOCATION_ALIASES)"
  by (simp add: VALID_LOCATIONS_def LOCATION_ALIASES_def ascii_def)

lemma valid_not_prototype_key: "\<forall>c \<in> set VALID_LOCATIONS. c \<notin> set OBJECT_PROTOTYPE_KEYS"
  by (simp add: VALID_LOCATIONS_def OBJECT_PROTOTYPE_KEYS_def ascii_def)

lemma alias_get_own:
  assumes "(k, c) \<in> set LOCATION_ALIASES"
  shows "alias_get k = Some (JStr c)"
proof -
  from alias_keys_distinct assms have "map_of LOCATION_ALIASES k = Some c"
    by (rule map_of_is_SomeI)
  then show ?thesis
    by (simp add: alias_get_def)
qed

lemma alias_get_not_key:
  assumes "k \<notin> set (map fst LOCATION_ALIASES)"
  shows "alias_get k = None \<or> alias_get k = Some (JInherited k)"
proof -
  from assms have "map_of LOCATION_ALIASES k = None"
    by (simp add: map_of_eq_None_iff)
  then show ?thesis
    by (simp add: alias_get_def)
qed

lemma normalizeLocation_unfold:
  "input \<noteq> [] \<Longrightarrow> normalizeLocation input =
     (case if_truthy (alias_get (trim input)) of
        Some v \<Rightarrow> v
      | None \<Rightarrow>
          (case if_truthy (alias_get (if startsWith (trim input) tai_casual
                                      then tai_formal @ str_slice (trim input) 1
                                      else trim input)) of
             Some v \<Rightarrow> v
           | None \<Rightarrow> JStr (if startsWith (trim input) tai_casual
                            then tai_formal @ str_slice (trim input) 1 else trim input)))"
  by (simp add: normalizeLocation_def Let_def split: option.split)

lemma normalizeLocation_alias:
  assumes "(a, c) \<in> set LOCATION_ALIASES"
  shows "normalizeLocation a = JStr c"
proof -
  from assms have key: "a \<in> set (map fst LOCATION_ALIASES)"
    by force
  with alias_keys_trimmed have a: "a \<noteq> []" "trim a = a"
    by (auto intro: trim_id)
  from assms have "c \<in> set (map snd LOCATION_ALIASES)"
    by force
  with alias_values_canonical valid_nonempty have "c \<noteq> []"
    by auto
  with a alias_get_own [OF assms] show ?thesis
    by (simp add: normalizeLocation_def)
qed

lemma normalizeLocation_canonical:
  assumes "c \<in> set VALID_LOCATIONS"
  shows "normalizeLocation c = JStr c"
proof -
  from assms valid_nonempty have ne: "c \<noteq> []"
    by auto
  with assms valid_trimmed have tr: "trim c = c"
    by (auto intro: trim_id)
  from assms valid_not_alias_key have "map_of LOCATION_ALIASES c = None"
    by (simp add: map_of_eq_None_iff)
  with assms valid_not_prototype_key have "alias_get c = None"
    by (simp add: alias_get_def)
  with ne tr assms valid_not_casual show ?thesis
    by (simp add: normalizeLocation_def)
qed

section \<open>Facts about the transformer\<close>

lemma element_names_distinct: "distinct (ascii ''WS'' # KNOWN_ELEMENTS)"
  by (simp add: KNOWN_ELEMENTS_def ascii_def)

lemma foldl_last_writer:
  assumes "\<And>fc e. g (step fc e) = (if P e then h e else g fc)"
  shows "g (foldl step fc es) = (case find P (rev es) of None \<Rightarrow> g fc | Some e \<Rightarrow> h e)"
  by (induction es rule: rev_induct) (simp_all add: assms)

lemma foldl_untouched:
  assumes "\<And>fc e. g (step fc e) = g fc"
  shows "g (foldl step fc es) = g fc"
  by (induction es rule: rev_induct) (simp_all add: assms)

lemma apply_element_weather:
  "weather (apply_element i fc e) =
     (if elementName e \<in> Some ` set [ascii ''Wx''] then value_or_empty (element_value e i)
      else weather fc)"
  using element_names_distinct
  by (auto simp: apply_element_def Let_def KNOWN_ELEMENTS_def)

lemma apply_element_rain:
  "rain (apply_element i fc e) =
     (if elementName e \<in> Some ` set [ascii ''PoP'', ascii ''PoP6h'']
      then with_unit (element_value e i) (ascii ''%'') else rain fc)"
  using element_names_distinct
  by (auto simp: apply_element_def Let_def KNOWN_ELEMENTS_def)

lemma apply_element_minTemp:
  "minTemp (apply_element i fc e) =
     (if elementName e \<in> Some ` set [ascii ''MinT'']
      then with_unit (element_value e i) DEGREE_C else minTemp fc)"
  using element_names_distinct
  by (auto simp: apply_element_def Let_def KNOWN_ELEMENTS_def)

lemma apply_element_maxTemp:
  "maxTemp (apply_element i fc e) =
     (if elementName e \<in> Some ` set [ascii ''MaxT'']
      then with_unit (element_value e i) DEGREE_C else maxTemp fc)"
  using element_names_distinct
  by (auto simp: apply_element_def Let_def KNOWN_ELEMENTS_def)

lemma apply_element_comfort:
  "comfort (apply_element i fc e) =
     (if elementName e \<in> Some ` set [ascii ''CI''] then value_or_empty (element_value e i)
      else comfort fc)"
  using element_names_distinct
  by (auto simp: apply_element_def Let_def KNOWN_ELEMENTS_def)

lemma apply_element_frame:
  "startTime (apply_element i fc e) = startTime fc"
  "endTime (apply_element i fc e) = endTime fc"
  "windSpeed (apply_element i fc e) = windSpeed fc"
  by (simp_all add: apply_element_def Let_def)

lemma apply_element_unknown:
  "elementName e \<notin> Some ` set KNOWN_ELEMENTS \<Longrightarrow> apply_element i fc e = fc"
  by (auto simp: apply_element_def Let_def KNOWN_ELEMENTS_def)

lemma forecast_at_weather:
  "weather (forecast_at bt es i) =
     (case last_named [ascii ''Wx''] es of
        None \<Rightarrow> [] | Some e \<Rightarrow> value_or_empty (element_value e i))"
  unfolding forecast_at_def last_named_def
  by (subst foldl_last_writer [where g = weather, OF apply_element_weather]) (simp split: option.split)

lemma forecast_at_rain:
  "rain (forecast_at bt es i) =
     (case last_named [ascii ''PoP'', ascii ''PoP6h''] es of
        None \<Rightarrow> [] | Some e \<Rightarrow> with_unit (element_value e i) (ascii ''%''))"
  unfolding forecast_at_def last_named_def
  by (subst foldl_last_writer [where g = rain, OF apply_element_rain]) (simp split: option.split)

lemma forecast_at_minTemp:
  "minTemp (forecast_at bt es i) =
     (case last_named [ascii ''MinT''] es of
        None \<Rightarrow> [] | Some e \<Rightarrow> with_unit (element_value e i) DEGREE_C)"
  unfolding forecast_at_def last_named_def
  by (subst foldl_last_writer [where g = minTemp, OF apply_element_minTemp]) (simp split: option.split)

lemma forecast_at_maxTemp:
  "maxTemp (forecast_at bt es i) =
     (case last_named [ascii ''MaxT''] es of
        None \<Rightarrow> [] | Some e \<Rightarrow> with_unit (element_value e i) DEGREE_C)"
  unfolding forecast_at_def last_named_def
  by (subst foldl_last_writer [where g = maxTemp, OF apply_element_maxTemp]) (simp split: option.split)

lemma forecast_at_comfort:
  "comfort (forecast_at bt es i) =
     (case last_named [ascii ''CI''] es of
        None \<Rightarrow> [] | Some e \<Rightarrow> value_or_empty (element_value e i))"
  unfolding forecast_at_def last_named_def
  by (subst foldl_last_writer [where g = comfort, OF apply_element_comfort]) (simp split: option.split)

lemma forecast_at_frame:
  "startTime (forecast_at bt es i) = or_empty (Option.bind (elem_at bt i) t_startTime)"
  "endTime (forecast_at bt es i) = or_empty (Option.bind (elem_at bt i) t_endTime)"
  "windSpeed (forecast_at bt es i) = []"
  unfolding forecast_at_def
  by (simp_all add: foldl_untouched [where step = "apply_element i"] apply_element_frame)

lemma foldl_skip_unknown:
  "foldl (apply_element i) fc (filter (\<lambda>e. elementName e \<in> Some ` set KNOWN_ELEMENTS) es)
     = foldl (apply_element i) fc es"
  by (induction es arbitrary: fc) (simp_all add: apply_element_unknown)

lemma forecast_at_known_only:
  "forecast_at bt (filter (\<lambda>e. elementName e \<in> Some ` set KNOWN_ELEMENTS) es) i
     = forecast_at bt es i"
  by (simp add: forecast_at_def foldl_skip_unknown)

lemma transform_forecasts:
  "forecasts (transform records ld) =
     map (forecast_at (base_times (weatherElements_of ld)) (weatherElements_of ld))
       [0..<length (base_times (weatherElements_of ld))]"
  by (simp add: transform_def Let_def)

lemma transform_length:
  "length (forecasts (transform records ld)) = length (base_times (weatherElements_of ld))"
  by (simp add: transform_forecasts)

lemma transform_nth:
  assumes "i < length (forecasts (transform records ld))"
  shows "forecasts (transform records ld) ! i =
     forecast_at (base_times (weatherElements_of ld)) (weatherElements_of ld) i"
  using assms by (simp add: transform_forecasts)

lemma element_value_beyond:
  assumes "time e = None \<or> (\<exists>ts. time e = Some ts \<and> length ts \<le> i)"
  shows "element_value e i = None"
  using assms by (auto simp: element_value_def elem_at_def)

lemma base_times_Wx:
  assumes "find (\<lambda>e. elementName e = Some (ascii ''Wx'')) es = Some e"
  shows "base_times es = (case time e of None \<Rightarrow> [] | Some ts \<Rightarrow> ts)"
  using assms by (simp add: base_times_def split: option.split)

lemma base_times_first:
  assumes "find (\<lambda>e. elementName e = Some (ascii ''Wx'')) es = None"
  shows "base_times es =
     (case es of [] \<Rightarrow> [] | e # rest \<Rightarrow> (case time e of None \<Rightarrow> [] | Some ts \<Rightarrow> ts))"
  using assms by (cases es) (simp_all add: base_times_def elem_at_def split: option.split)

lemma null_prints_null:
  "with_unit (Some JsonNull) (ascii ''%'') = ascii ''null%''"
  "with_unit (Some JsonNull) DEGREE_C = ascii ''null'' @ [0x00B0, 0x0043]"
  "value_or_empty (Some JsonNull) = []"
  by (simp_all add: ascii_def DEGREE_C_def)

lemma transform_updateTime:
  "(Option.bind records datasetDescription = Some d \<and> d \<noteq> []
      \<longrightarrow> updateTime (transform records ld) = d)
   \<and> (Option.bind records datasetDescription = None
        \<or> Option.bind records datasetDescription = Some []
      \<longrightarrow> updateTime (transform records ld)
          = [0x4E09, 0x5341, 0x516D, 0x5C0F, 0x6642, 0x5929, 0x6C23, 0x9810, 0x5831])"
  by (auto simp: transform_def Let_def DEFAULT_UPDATE_TIME_def)

section \<open>The paths through the handler\<close>

lemma valid_is_nonempty: "isValidLocation loc \<Longrightarrow> loc \<noteq> JStr []"
  using valid_nonempty by auto

lemma handler_no_key:
  assumes "\<not> truthy key"
  shows "getWeatherByLocation key ax t1 t2 req c =
     \<lparr>sent = \<lparr>status = 500, body = failure ERR_CONFIG MSG_CONFIG\<rparr>,
      cache_after = c, upstream_calls = []\<rparr>"
  using assms by (simp add: getWeatherByLocation_def)

lemma handler_empty_location:
  assumes "truthy key" and "normalizeLocation (request_input req) = JStr []"
  shows "getWeatherByLocation key ax t1 t2 req c =
     \<lparr>sent = \<lparr>status = 400, body = failure ERR_PARAM MSG_PARAM\<rparr>,
      cache_after = c, upstream_calls = []\<rparr>"
  using assms by (simp add: getWeatherByLocation_def)

lemma handler_unsupported:
  assumes "truthy key" and "normalizeLocation (request_input req) \<noteq> JStr []"
    and "\<not> isValidLocation (normalizeLocation (request_input req))"
  shows "getWeatherByLocation key ax t1 t2 req c =
     \<lparr>sent = \<lparr>status = 400,
              body = (failure ERR_UNSUPPORTED
                        (MSG_UNSUPPORTED (normalizeLocation (request_input req))))
                \<lparr>allowed := Some VALID_LOCATIONS, tip := Some TIP_LOCATIONS\<rparr>\<rparr>,
      cache_after = c, upstream_calls = []\<rparr>"
  using assms by (simp add: getWeatherByLocation_def)

lemma handler_hit:
  assumes "truthy key" and "isValidLocation (normalizeLocation (request_input req))"
    and "getCache t1 (normalizeLocation (request_input req)) c = (Some hit, c1)"
  shows "getWeatherByLocation key ax t1 t2 req c =
     \<lparr>sent = \<lparr>status = 200, body = (succeeded hit)\<lparr>cached := Some True\<rparr>\<rparr>,
      cache_after = c1, upstream_calls = []\<rparr>"
  using assms valid_is_nonempty by (simp add: getWeatherByLocation_def)

lemma handler_miss:
  assumes "truthy key" and "isValidLocation (normalizeLocation (request_input req))"
    and "getCache t1 (normalizeLocation (request_input req)) c = (None, c1)"
  shows "getWeatherByLocation key ax t1 t2 req c =
     (case ax of
        Resolved records \<Rightarrow>
          (case pickFirstLocation records of
             None \<Rightarrow>
               \<lparr>sent = \<lparr>status = 404,
                        body = failure ERR_NOT_FOUND
                          (MSG_NOT_FOUND (normalizeLocation (request_input req)))\<rparr>,
                cache_after = c1,
                upstream_calls = [normalizeLocation (request_input req)]\<rparr>
           | Some locationData \<Rightarrow>
               \<lparr>sent = \<lparr>status = 200, body = succeeded (transform records locationData)\<rparr>,
                cache_after = setCache t2 (normalizeLocation (request_input req))
                  (transform records locationData) c1,
                upstream_calls = [normalizeLocation (request_input req)]\<rparr>)
      | Rejected_with_response st d \<Rightarrow>
          \<lparr>sent = \<lparr>status = st,
                   body = (failure ERR_UPSTREAM (upstream_message d))\<lparr>details := d\<rparr>\<rparr>,
           cache_after = c1, upstream_calls = [normalizeLocation (request_input req)]\<rparr>
      | Rejected_without_response \<Rightarrow>
          \<lparr>sent = \<lparr>status = 500, body = failure ERR_SERVER MSG_SERVER\<rparr>,
           cache_after = c1, upstream_calls = [normalizeLocation (request_input req)]\<rparr>)"
  using assms valid_is_nonempty
  by (simp add: getWeatherByLocation_def Let_def split: upstream_result.split option.split)

lemma getCache_keeps:
  assumes "getCache t k c = (r, c1)" and "c1 k' = Some e"
  shows "c k' = Some e"
  using assms by (auto simp: getCache_def split: option.splits if_splits)

lemma getCache_hit_entry:
  assumes "getCache t k c = (Some d, c1)"
  shows "\<exists>e. c k = Some e \<and> data e = d"
  using assms by (auto simp: getCache_def split: option.splits if_splits)

lemma handler_cases:
  fixes c :: "jsval \<rightharpoonup> weatherData cache_entry"
  obtains (no_key) "\<not> truthy key"
  | (empty) "truthy key" "normalizeLocation (request_input req) = JStr []"
  | (unsupported) "truthy key" "normalizeLocation (request_input req) \<noteq> JStr []"
      "\<not> isValidLocation (normalizeLocation (request_input req))"
  | (hit) hit c1 where "truthy key" "isValidLocation (normalizeLocation (request_input req))"
      "getCache t1 (normalizeLocation (request_input req)) c = (Some hit, c1)"
  | (miss) c1 where "truthy key" "isValidLocation (normalizeLocation (request_input req))"
      "getCache t1 (normalizeLocation (request_input req)) c = (None, c1)"
proof (cases "truthy key")
  case False
  then show ?thesis by (rule no_key)
next
  case key: True
  show ?thesis
  proof (cases "isValidLocation (normalizeLocation (request_input req))")
    case False
    with key show ?thesis
      by (cases "normalizeLocation (request_input req) = JStr []") (auto intro: empty unsupported)
  next
    case True
    obtain r c1 where g: "getCache t1 (normalizeLocation (request_input req)) c = (r, c1)"
      by (cases "getCache t1 (normalizeLocation (request_input req)) c")
    with key True show ?thesis
      by (cases r) (auto intro: hit miss)
  qed
qed

lemma handler_cache_after:
  assumes "cache_after (getWeatherByLocation key ax t1 t2 req c) k = Some e"
  shows "c k = Some e
    \<or> (\<exists>records ld. ax = Resolved records
          \<and> upstream_calls (getWeatherByLocation key ax t1 t2 req c) \<noteq> []
          \<and> pickFirstLocation records = Some ld \<and> data e = transform records ld)"
proof (cases rule: handler_cases [where key = key and req = req and ?t1.0 = t1 and c = c])
  case no_key
  with assms show ?thesis by (simp add: handler_no_key)
next
  case empty
  with assms show ?thesis by (simp add: handler_empty_location)
next
  case unsupported
  with assms show ?thesis by (simp add: handler_unsupported)
next
  case (hit h c1)
  with assms have "c1 k = Some e"
    by (simp add: handler_hit)
  with hit(3) show ?thesis
    by (auto dest: getCache_keeps)
next
  case (miss c1)
  note h = handler_miss [OF miss, of ax t2]
  show ?thesis
  proof (cases ax)
    case (Resolved records)
    show ?thesis
    proof (cases "pickFirstLocation records")
      case None
      with assms h Resolved have "c1 k = Some e" by simp
      with miss(3) show ?thesis by (auto dest: getCache_keeps)
    next
      case (Some ld)
      with assms h Resolved
      have "c1 k = Some e \<or> data e = transform records ld"
        by (auto simp: setCache_def split: if_splits)
      moreover from h Resolved Some
      have "upstream_calls (getWeatherByLocation key ax t1 t2 req c) \<noteq> []"
        by simp
      ultimately show ?thesis
        using miss(3) Resolved Some by (auto dest: getCache_keeps)
    qed
  next
    case (Rejected_with_response st d)
    with assms h have "c1 k = Some e" by simp
    with miss(3) show ?thesis by (auto dest: getCache_keeps)
  next
    case Rejected_without_response
    with assms h have "c1 k = Some e" by simp
    with miss(3) show ?thesis by (auto dest: getCache_keeps)
  qed
qed

lemma fetched_Resolved:
  "upstream_calls out \<noteq> [] \<Longrightarrow> fetched out (Resolved records) = {records}"
  by (simp add: fetched_def)

lemma served_entries:
  assumes "served c seen" and "c k = Some e"
  shows "\<exists>records ld. records \<in> seen \<and> pickFirstLocation records = Some ld
           \<and> data e = transform records ld"
  using assms
proof (induction arbitrary: k e rule: served.induct)
  case start
  then show ?case by simp
next
  case (run c seen out key ax t1 t2 req)
  from run.prems run.hyps(2)
  have "cache_after (getWeatherByLocation key ax t1 t2 req c) k = Some e"
    by simp
  then consider "c k = Some e"
    | records ld where "ax = Resolved records"
        "upstream_calls (getWeatherByLocation key ax t1 t2 req c) \<noteq> []"
        "pickFirstLocation records = Some ld" "data e = transform records ld"
    using handler_cache_after by blast
  then show ?case
  proof cases
    case 1
    with run.IH show ?thesis by blast
  next
    case 2
    with run.hyps(2) have "records \<in> fetched out ax"
      by (simp add: fetched_Resolved)
    with 2 show ?thesis by blast
  qed
qed

lemma handler_success:
  assumes "success (body (sent (getWeatherByLocation key ax t1 t2 req c)))"
  shows "(\<exists>hit c1. getCache t1 (normalizeLocation (request_input req)) c = (Some hit, c1)
            \<and> body_data (body (sent (getWeatherByLocation key ax t1 t2 req c))) = Some hit)
    \<or> (\<exists>records ld. ax = Resolved records
          \<and> upstream_calls (getWeatherByLocation key ax t1 t2 req c) \<noteq> []
          \<and> pickFirstLocation records = Some ld
          \<and> body_data (body (sent (getWeatherByLocation key ax t1 t2 req c)))
              = Some (transform records ld))"
proof (cases rule: handler_cases [where key = key and req = req and ?t1.0 = t1 and c = c])
  case no_key
  with assms show ?thesis by (simp add: handler_no_key failure_def)
next
  case empty
  with assms show ?thesis by (simp add: handler_empty_location failure_def)
next
  case unsupported
  with assms show ?thesis by (simp add: handler_unsupported failure_def)
next
  case (hit h c1)
  then show ?thesis by (simp add: handler_hit succeeded_def)
next
  case (miss c1)
  note h = handler_miss [OF miss, of ax t2]
  from assms h show ?thesis
    by (auto simp: failure_def succeeded_def split: upstream_result.splits option.splits)
qed

section \<open>The sample inputs evaluated\<close>

lemma sample_forecasts:
  "forecasts (transform records sample_location) =
     [\<lparr>startTime = ascii ''06'', endTime = ascii ''18'', weather = [0x6674],
       rain = ascii ''60%'', minTemp = [], maxTemp = ascii ''25'' @ DEGREE_C,
       comfort = ascii ''fine'', windSpeed = []\<rparr>,
      \<lparr>startTime = ascii ''18'', endTime = ascii ''06'', weather = [0x591A, 0x96F2],
       rain = [], minTemp = ascii ''18'' @ DEGREE_C, maxTemp = [],
       comfort = [], windSpeed = []\<rparr>]"
  by (simp add: transform_def weatherElements_of_def sample_location_def sample_elements_def
      sample_Wx_def sample_PoP_def sample_MinT_def sample_MaxT_def sample_CI_def sample_WS_def
      sample_period_def base_times_def elem_at_def forecast_at_def apply_element_def
      element_value_def or_empty_def ascii_def DEGREE_C_def upt_rec)

lemma bare_request_location:
  "normalizeLocation (request_input bare_request) = JStr KAOHSIUNG"
  "KAOHSIUNG \<in> set VALID_LOCATIONS"
proof -
  have v: "KAOHSIUNG \<in> set VALID_LOCATIONS"
    by (simp add: VALID_LOCATIONS_def KAOHSIUNG_def)
  have "request_input bare_request = KAOHSIUNG"
    by (simp add: request_input_def bare_request_def js_or_def truthy_def)
  with v show "normalizeLocation (request_input bare_request) = JStr KAOHSIUNG"
    by (simp add: normalizeLocation_canonical)
  from v show "KAOHSIUNG \<in> set VALID_LOCATIONS" .
qed

lemma sample_key: "truthy (Some (ascii ''key''))"
  by (simp add: truthy_def ascii_def)

lemma getCache_empty: "getCache t k Map.empty = (None, Map.empty)"
  by (simp add: getCache_def)

lemma sample_first_location:
  "pickFirstLocation (Some (sample_records\<lparr>datasetDescription := d\<rparr>)) = Some sample_location"
  by (simp add: pickFirstLocation_def sample_records_def elem_at_def)

lemma mars_location:
  "normalizeLocation (request_input (city_request [0x706B, 0x661F])) = JStr [0x706B, 0x661F]"
  "[0x706B, 0x661F] \<notin> set VALID_LOCATIONS"
proof -
  have i: "request_input (city_request [0x706B, 0x661F]) = [0x706B, 0x661F]"
    by (simp add: request_input_def city_request_def bare_request_def js_or_def truthy_def)
  have t: "trim [0x706B, 0x661F] = [0x706B, 0x661F]"
    by (simp add: trim_def isWhiteSpace_def)
  have "[0x706B, 0x661F] \<notin> set (map fst LOCATION_ALIASES)"
    by (simp add: LOCATION_ALIASES_def ascii_def)
  then have "map_of LOCATION_ALIASES [0x706B, 0x661F] = None"
    by (simp add: map_of_eq_None_iff)
  moreover have "[0x706B, 0x661F] \<notin> set OBJECT_PROTOTYPE_KEYS"
    by (simp add: OBJECT_PROTOTYPE_KEYS_def ascii_def)
  ultimately have "alias_get [0x706B, 0x661F] = None"
    by (simp add: alias_get_def)
  with i t show "normalizeLocation (request_input (city_request [0x706B, 0x661F]))
      = JStr [0x706B, 0x661F]"
    by (simp add: normalizeLocation_unfold startsWith_def tai_casual_def)
  show "[0x706B, 0x661F] \<notin> set VALID_LOCATIONS"
    by (simp add: VALID_LOCATIONS_def)
qed

lemma blank_location:
  "normalizeLocation (request_input (city_request [0x20])) = JStr []"
proof -
  have i: "request_input (city_request [0x20]) = [0x20]"
    by (simp add: request_input_def city_request_def bare_request_def js_or_def truthy_def)
  have t: "trim [0x20] = []"
    by (simp add: trim_def isWhiteSpace_def)
  have "[] \<notin> set (map fst LOCATION_ALIASES)"
    by (simp add: LOCATION_ALIASES_def ascii_def)
  then have "map_of LOCATION_ALIASES [] = None"
    by (simp add: map_of_eq_None_iff)
  moreover have "[] \<notin> set OBJECT_PROTOTYPE_KEYS"
    by (simp add: OBJECT_PROTOTYPE_KEYS_def ascii_def)
  ultimately have "alias_get [] = None"
    by (simp add: alias_get_def)
  with i t show ?thesis
    by (simp add: normalizeLocation_unfold startsWith_def tai_casual_def)
qed

lemma valid_count: "length VALID_LOCATIONS = 22" "distinct VALID_LOCATIONS"
  by (simp_all add: VALID_LOCATIONS_def)

lemma sample_values:
  "last_named [ascii ''Wx''] sample_elements = Some sample_Wx"
  "last_named [ascii ''PoP'', ascii ''PoP6h''] sample_elements = Some sample_PoP"
  "last_named [ascii ''MinT''] sample_elements = Some sample_MinT"
  "last_named [ascii ''MaxT''] sample_elements = Some sample_MaxT"
  "last_named [ascii ''CI''] sample_elements = Some sample_CI"
  "element_value sample_Wx 0 = Some (JsonString [0x6674])"
  "element_value sample_PoP 0 = Some (JsonString (ascii ''60''))"
  "element_value sample_PoP 1 = None"
  "element_value sample_MinT 0 = None"
  "element_value sample_MaxT 0 = Some (JsonString (ascii ''25''))"
  "element_value sample_MaxT 1 = Some (JsonString [])"
  "element_value sample_CI 1 = None"
  by (simp_all add: last_named_def sample_elements_def sample_Wx_def sample_PoP_def
      sample_MinT_def sample_MaxT_def sample_CI_def sample_WS_def sample_period_def
      element_value_def elem_at_def ascii_def)

lemma sample_weatherElements: "weatherElements_of sample_location = sample_elements"
  by (simp add: weatherElements_of_def sample_location_def)

lemma sample_timelines:
  "find (\<lambda>e. elementName e = Some (ascii ''Wx'')) (weatherElements_of sample_location)
     = Some sample_Wx"
  "find (\<lambda>e. elementName e = Some (ascii ''Wx'')) (weatherElements_of sample_no_Wx) = None"
  "weatherElements_of sample_no_Wx = [sample_PoP, sample_MinT]"
  "weatherElements_of sample_bare = []"
  "length (case time sample_Wx of None \<Rightarrow> [] | Some ts \<Rightarrow> ts) = 2"
  "length (case time sample_PoP of None \<Rightarrow> [] | Some ts \<Rightarrow> ts) = 1"
  by (simp_all add: weatherElements_of_def sample_location_def sample_no_Wx_def
      sample_bare_def sample_elements_def sample_Wx_def sample_PoP_def sample_MinT_def
      ascii_def)

lemma sample_more_values:
  "element_value sample_CI 0 = Some (JsonString (ascii ''fine''))"
  "last_named [ascii ''Wx''] (weatherElements_of sample_no_Wx) = None"
  by (simp_all add: last_named_def weatherElements_of_def sample_no_Wx_def sample_CI_def
      sample_PoP_def sample_MinT_def sample_period_def element_value_def elem_at_def ascii_def)

lemma sample_no_Wx_length: "length (forecasts (transform records sample_no_Wx)) = 1"
  using base_times_first [OF sample_timelines(2)]
  by (simp add: transform_length sample_timelines)

lemma sample_bare_first:
  "pickFirstLocation (Some sample_bare_records) = Some sample_bare"
  by (simp add: pickFirstLocation_def sample_bare_records_def elem_at_def)

lemma sample_overwritten_values:
  "weatherElements_of sample_overwritten = [sample_Wx, sample_PoP, sample_PoP6h_no_time]"
  "elementName sample_PoP = Some (ascii ''PoP'')"
  "last_named [ascii ''PoP'', ascii ''PoP6h''] [sample_Wx, sample_PoP, sample_PoP6h_no_time]
     = Some sample_PoP6h_no_time"
  "element_value sample_PoP6h_no_time 0 = None"
  "find (\<lambda>e. elementName e = Some (ascii ''Wx'')) [sample_Wx, sample_PoP, sample_PoP6h_no_time]
     = Some sample_Wx"
  by (simp_all add: weatherElements_of_def sample_overwritten_def last_named_def
      sample_Wx_def sample_PoP_def sample_PoP6h_no_time_def element_value_def ascii_def)

lemma sample_covered_values:
  "weatherElements_of sample_covered = [sample_Wx, sample_PoP_empty, sample_PoP6h]"
  "elementName sample_PoP_empty = Some (ascii ''PoP'')"
  "time sample_PoP_empty = Some []"
  "element_value sample_PoP_empty 0 = None"
  "last_named [ascii ''PoP'', ascii ''PoP6h''] [sample_Wx, sample_PoP_empty, sample_PoP6h]
     = Some sample_PoP6h"
  "element_value sample_PoP6h 0 = Some (JsonString (ascii ''20''))"
  "find (\<lambda>e. elementName e = Some (ascii ''Wx'')) [sample_Wx, sample_PoP_empty, sample_PoP6h]
     = Some sample_Wx"
  by (simp_all add: weatherElements_of_def sample_covered_def last_named_def
      sample_Wx_def sample_PoP_empty_def sample_PoP6h_def sample_period_def
      element_value_def elem_at_def ascii_def)

lemma sample_overwritten_first:
  "0 < length (forecasts (transform records sample_overwritten))"
  "rain (forecasts (transform records sample_overwritten) ! 0) = []"
proof -
  have "base_times (weatherElements_of sample_overwritten)
      = (case time sample_Wx of None \<Rightarrow> [] | Some ts \<Rightarrow> ts)"
    unfolding sample_overwritten_values(1)
    by (rule base_times_Wx) (rule sample_overwritten_values(5))
  with sample_timelines(5)
  show l: "0 < length (forecasts (transform records sample_overwritten))"
    by (simp add: transform_length)
  show "rain (forecasts (transform records sample_overwritten) ! 0) = []"
    by (simp add: transform_nth [OF l] forecast_at_rain sample_overwritten_values)
qed

lemma sample_covered_first:
  "0 < length (forecasts (transform records sample_covered))"
  "rain (forecasts (transform records sample_covered) ! 0) = ascii ''20%''"
proof -
  have "base_times (weatherElements_of sample_covered)
      = (case time sample_Wx of None \<Rightarrow> [] | Some ts \<Rightarrow> ts)"
    unfolding sample_covered_values(1)
    by (rule base_times_Wx) (rule sample_covered_values(7))
  with sample_timelines(5)
  show l: "0 < length (forecasts (transform records sample_covered))"
    by (simp add: transform_length)
  show "rain (forecasts (transform records sample_covered) ! 0) = ascii ''20%''"
    by (simp add: transform_nth [OF l] forecast_at_rain sample_covered_values)
      (simp add: ascii_def)
qed

lemma first_run_outcome:
  "first_run =
     \<lparr>sent = \<lparr>status = 200,
              body = succeeded (transform (Some sample_records) sample_location)\<rparr>,
      cache_after = setCache 5 (JStr KAOHSIUNG)
        (transform (Some sample_records) sample_location) Map.empty,
      upstream_calls = [JStr KAOHSIUNG]\<rparr>"
proof -
  have v: "isValidLocation (normalizeLocation (request_input bare_request))"
    by (simp add: bare_request_location)
  have g: "getCache 0 (normalizeLocation (request_input bare_request)) Map.empty
      = (None, Map.empty)"
    by (rule getCache_empty)
  have p: "pickFirstLocation (Some sample_records) = Some sample_location"
    using sample_first_location [of "datasetDescription sample_records"] by simp
  from handler_miss [OF sample_key v g, of "Resolved (Some sample_records)" 5] p
  show ?thesis
    by (simp add: first_run_def bare_request_location)
qed

lemma second_run_lookup:
  "getCache 10 (JStr KAOHSIUNG) (cache_after first_run)
     = (Some (transform (Some sample_records) sample_location), cache_after first_run)"
  by (simp add: first_run_outcome getCache_def setCache_def CACHE_TTL_MS_def)

lemma first_run_served:
  "served (cache_after first_run) {Some sample_records}"
proof -
  have "served (cache_after first_run)
      ({} \<union> fetched first_run (Resolved (Some sample_records)))"
    using served.start first_run_def by (rule served.run)
  then show ?thesis
    by (simp add: fetched_def first_run_outcome)
qed

lemma second_run_outcome:
  "second_run =
     \<lparr>sent = \<lparr>status = 200,
              body = (succeeded (transform (Some sample_records) sample_location))
                \<lparr>cached := Some True\<rparr>\<rparr>,
      cache_after = cache_after first_run, upstream_calls = []\<rparr>"
proof -
  have v: "isValidLocation (normalizeLocation (request_input bare_request))"
    by (simp add: bare_request_location)
  have g: "getCache 10 (normalizeLocation (request_input bare_request)) (cache_after first_run)
      = (Some (transform (Some sample_records) sample_location), cache_after first_run)"
    by (simp add: bare_request_location second_run_lookup)
  from handler_hit [OF sample_key v g, of Rejected_without_response 10]
  show ?thesis
    by (simp add: second_run_def)
qed

lemma sample_description:
  "Option.bind (Some sample_records) datasetDescription = Some (ascii ''36h'')"
  "ascii ''36h'' \<noteq> []"
  by (simp_all add: sample_records_def ascii_def)

section \<open>The resolver's properties\<close>

text \<open>
  Claim C3. Every alias key resolves to its mapped canonical name, every canonical name
  resolves to itself, and both the casual and the formal spelling of Taipei City
  (U+53F0 or U+81FA, then U+5317 U+5E02) resolve to the formal one.
\<close>

theorem normalizeLocation_resolves:
  "(\<forall>(a, c) \<in> set LOCATION_ALIASES. normalizeLocation a = JStr c)
   \<and> (\<forall>c \<in> set VALID_LOCATIONS. normalizeLocation c = JStr c)
   \<and> normalizeLocation [0x53F0, 0x5317, 0x5E02] = JStr [0x81FA, 0x5317, 0x5E02]
   \<and> normalizeLocation [0x81FA, 0x5317, 0x5E02] = JStr [0x81FA, 0x5317, 0x5E02]"
proof (intro conjI)
  show "\<forall>(a, c) \<in> set LOCATION_ALIASES. normalizeLocation a = JStr c"
    by (auto intro: normalizeLocation_alias)
  show "\<forall>c \<in> set VALID_LOCATIONS. normalizeLocation c = JStr c"
    by (auto intro: normalizeLocation_canonical)
  have "([0x53F0, 0x5317, 0x5E02], [0x81FA, 0x5317, 0x5E02]) \<in> set LOCATION_ALIASES"
    by (simp add: LOCATION_ALIASES_def)
  then show "normalizeLocation [0x53F0, 0x5317, 0x5E02] = JStr [0x81FA, 0x5317, 0x5E02]"
    by (rule normalizeLocation_alias)
  have "[0x81FA, 0x5317, 0x5E02] \<in> set VALID_LOCATIONS"
    by (simp add: VALID_LOCATIONS_def)
  then show "normalizeLocation [0x81FA, 0x5317, 0x5E02] = JStr [0x81FA, 0x5317, 0x5E02]"
    by (rule normalizeLocation_canonical)
qed

text \<open>The slug \<open>kaohsiung\<close> and the canonical name it stands for.\<close>

theorem normalizeLocation_resolves_witness:
  "(ascii ''kaohsiung'', KAOHSIUNG) \<in> set LOCATION_ALIASES
   \<and> KAOHSIUNG \<in> set VALID_LOCATIONS
   \<and> normalizeLocation (ascii ''kaohsiung'') = JStr KAOHSIUNG
   \<and> normalizeLocation KAOHSIUNG = JStr KAOHSIUNG"
proof -
  have a: "(ascii ''kaohsiung'', KAOHSIUNG) \<in> set LOCATION_ALIASES"
    by (simp add: LOCATION_ALIASES_def KAOHSIUNG_def)
  have c: "KAOHSIUNG \<in> set VALID_LOCATIONS"
    by (simp add: VALID_LOCATIONS_def KAOHSIUNG_def)
  from a c normalizeLocation_resolves show ?thesis
    by blast
qed

text \<open>
  Claim C1, as amended. The resolver trims its input before anything else, so the three
  conditions are conditions on the trimmed input: when the trimmed input is not an
  alias key, does not start with the casual U+53F0 and is not a canonical name, the
  resolved value is not a valid location. This covers the keys inherited from
  \<open>Object.prototype\<close>, for which the resolver returns a value that is not a string.
\<close>

theorem normalize_unknown_rejected:
  assumes "trim input \<notin> fst ` set LOCATION_ALIASES"
    and "\<not> startsWith (trim input) tai_casual"
    and "trim input \<notin> set VALID_LOCATIONS"
  shows "\<not> isValidLocation (normalizeLocation input)"
proof (cases "input = []")
  case True
  then have "normalizeLocation input = JStr []"
    by (simp add: normalizeLocation_def)
  with valid_nonempty show ?thesis
    by simp
next
  case False
  from assms(1) have "trim input \<notin> set (map fst LOCATION_ALIASES)"
    by simp
  then have "alias_get (trim input) = None
      \<or> alias_get (trim input) = Some (JInherited (trim input))"
    by (rule alias_get_not_key)
  then show ?thesis
  proof
    assume "alias_get (trim input) = None"
    with False assms(2,3) show ?thesis
      by (simp add: normalizeLocation_unfold)
  next
    assume "alias_get (trim input) = Some (JInherited (trim input))"
    with False show ?thesis
      by (simp add: normalizeLocation_unfold)
  qed
qed

text \<open>The unsupported name of the specification's scenario (U+706B U+661F, "Mars").\<close>

theorem normalize_unknown_rejected_witness:
  "trim [0x706B, 0x661F] \<notin> fst ` set LOCATION_ALIASES
   \<and> \<not> startsWith (trim [0x706B, 0x661F]) tai_casual
   \<and> trim [0x706B, 0x661F] \<notin> set VALID_LOCATIONS
   \<and> \<not> isValidLocation (normalizeLocation [0x706B, 0x661F])"
proof -
  have t: "trim [0x706B, 0x661F] = [0x706B, 0x661F]"
    by (simp add: trim_def isWhiteSpace_def)
  have 1: "trim [0x706B, 0x661F] \<notin> fst ` set LOCATION_ALIASES"
    unfolding t by (simp add: LOCATION_ALIASES_def ascii_def)
  have 2: "\<not> startsWith (trim [0x706B, 0x661F]) tai_casual"
    unfolding t by (simp add: startsWith_def tai_casual_def)
  have 3: "trim [0x706B, 0x661F] \<notin> set VALID_LOCATIONS"
    unfolding t by (simp add: VALID_LOCATIONS_def)
  from 1 2 3 normalize_unknown_rejected [OF 1 2 3] show ?thesis
    by blast
qed

text \<open>
  Claim C1 as first stated, on the untrimmed input, fails: \<open>" taipei"\<close> with a leading
  space is not an alias key, does not start with U+53F0 and is not canonical, yet it
  resolves to a valid location.
\<close>

theorem normalize_untrimmed_counterexample:
  "ascii '' taipei'' \<notin> fst ` set LOCATION_ALIASES
   \<and> \<not> startsWith (ascii '' taipei'') tai_casual
   \<and> ascii '' taipei'' \<notin> set VALID_LOCATIONS
   \<and> isValidLocation (normalizeLocation (ascii '' taipei''))"
proof (intro conjI)
  show "ascii '' taipei'' \<notin> fst ` set LOCATION_ALIASES"
    by (simp add: LOCATION_ALIASES_def ascii_def)
  show "\<not> startsWith (ascii '' taipei'') tai_casual"
    by (simp add: startsWith_def tai_casual_def ascii_def)
  show "ascii '' taipei'' \<notin> set VALID_LOCATIONS"
    by (simp add: VALID_LOCATIONS_def ascii_def)
  have t: "trim (ascii '' taipei'') = ascii ''taipei''"
    by (simp add: trim_def ascii_def isWhiteSpace_def)
  have "(ascii ''taipei'', [0x81FA, 0x5317, 0x5E02]) \<in> set LOCATION_ALIASES"
    by (simp add: LOCATION_ALIASES_def)
  then have "alias_get (ascii ''taipei'') = Some (JStr [0x81FA, 0x5317, 0x5E02])"
    by (rule alias_get_own)
  with t have "normalizeLocation (ascii '' taipei'') = JStr [0x81FA, 0x5317, 0x5E02]"
    by (simp add: normalizeLocation_def ascii_def)
  then show "isValidLocation (normalizeLocation (ascii '' taipei''))"
    by (simp add: VALID_LOCATIONS_def)
qed

section \<open>The cache's properties\<close>

text \<open>
  Claim C6. The time to live is 180000 ms (three minutes). A \<open>getCache\<close> at time
  \<open>t'\<close> after a \<open>setCache\<close> of \<open>v\<close> under \<open>k\<close> at time \<open>t\<close> returns \<open>v\<close> and leaves the
  cache as it is while \<open>t' \<le> t + 180000\<close>. Once \<open>t + 180000 < t'\<close> it returns absent
  and removes the entry: the cache is then what it would be with \<open>k\<close> deleted, whatever
  \<open>v\<close> and \<open>t\<close> were, a further \<open>getCache\<close> finds nothing, and a later set/get pair runs
  as if the entry had never been stored. Whenever \<open>getCache\<close> returns a value, it is the
  data of the stored entry and the clock is not past that entry's expiry.
\<close>

theorem cache_round_trip:
  fixes c :: "'k \<rightharpoonup> 'v cache_entry"
  shows "CACHE_TTL_MS = 180000
   \<and> (t' \<le> t + 180000 \<longrightarrow>
        getCache t' k (setCache t k v c) = (Some v, setCache t k v c))
   \<and> (t + 180000 < t' \<longrightarrow>
        getCache t' k (setCache t k v c) = (None, c(k := None))
        \<and> fst (getCache t'' k (c(k := None))) = None
        \<and> getCache t'' k (setCache t' k v' (c(k := None)))
            = getCache t'' k (setCache t' k v' c))
   \<and> (\<forall>d c'. getCache now k c = (Some d, c') \<longrightarrow>
        (\<exists>hit. c k = Some hit \<and> data hit = d \<and> now \<le> expires hit) \<and> c' = c)"
proof (intro conjI impI allI)
  show "CACHE_TTL_MS = 180000"
    by (simp add: CACHE_TTL_MS_def)
  show "getCache t' k (setCache t k v c) = (Some v, setCache t k v c)"
    if "t' \<le> t + 180000"
    using that by (simp add: getCache_def setCache_def CACHE_TTL_MS_def)
  show "getCache t' k (setCache t k v c) = (None, c(k := None))"
    if "t + 180000 < t'"
    using that by (simp add: getCache_def setCache_def CACHE_TTL_MS_def)
  show "fst (getCache t'' k (c(k := None))) = None"
    by (simp add: getCache_def)
  show "getCache t'' k (setCache t' k v' (c(k := None))) = getCache t'' k (setCache t' k v' c)"
    by (simp add: getCache_def setCache_def)
  show "\<exists>hit. c k = Some hit \<and> data hit = d \<and> now \<le> expires hit"
    if "getCache now k c = (Some d, c')" for d c'
    using that by (auto simp: getCache_def split: option.splits if_splits)
  show "c' = c" if "getCache now k c = (Some d, c')" for d c'
    using that by (auto simp: getCache_def split: option.splits if_splits)
qed

text \<open>
  A read at the last millisecond of the time to live, one a millisecond later, and a
  read of an entry that expires at 9 when the clock shows 5.
\<close>

theorem cache_round_trip_witness:
  "(1000 + 180000 \<le> (1000::int) + 180000
      \<and> getCache (1000 + 180000) KAOHSIUNG (setCache 1000 KAOHSIUNG (7::nat) Map.empty)
          = (Some 7, setCache 1000 KAOHSIUNG 7 Map.empty))
   \<and> ((1000::int) + 180000 < 181001
      \<and> getCache 181001 KAOHSIUNG (setCache 1000 KAOHSIUNG (7::nat) Map.empty)
          = (None, Map.empty))
   \<and> (getCache 5 KAOHSIUNG [KAOHSIUNG \<mapsto> \<lparr>expires = 9, data = (7::nat)\<rparr>]
          = (Some 7, [KAOHSIUNG \<mapsto> \<lparr>expires = 9, data = 7\<rparr>])
      \<and> (5::int) \<le> 9)"
proof -
  have a: "(1000::int) + 180000 \<le> 1000 + 180000"
    by simp
  have b: "(1000::int) + 180000 < 181001"
    by simp
  have g: "getCache 5 KAOHSIUNG [KAOHSIUNG \<mapsto> \<lparr>expires = 9, data = (7::nat)\<rparr>]
          = (Some 7, [KAOHSIUNG \<mapsto> \<lparr>expires = 9, data = 7\<rparr>])"
    by (simp add: getCache_def)
  note r1 = cache_round_trip [of "1000 + 180000" 1000 KAOHSIUNG "7::nat" Map.empty]
  note r2 = cache_round_trip [of 181001 1000 KAOHSIUNG "7::nat" Map.empty]
  note r3 = cache_round_trip [where now = 5 and k = KAOHSIUNG
      and c = "[KAOHSIUNG \<mapsto> \<lparr>expires = 9, data = (7::nat)\<rparr>]"]
  from r3 g have "(5::int) \<le> 9"
    by simp
  with a b g r1 r2 show ?thesis
    by simp
qed

section \<open>The transformer's properties\<close>

text \<open>
  Claim C9. Every forecast record the transformer emits, for every upstream payload, has
  a field \<open>windSpeed\<close>, and its value is the empty string.
\<close>

theorem windSpeed_always_empty:
  "\<forall>fc \<in> set (forecasts (transform records locationData)). windSpeed fc = []"
  by (auto simp: transform_forecasts forecast_at_frame)

text \<open>Both records emitted for the sample payload.\<close>

theorem windSpeed_always_empty_witness:
  "forecasts (transform (Some sample_records) sample_location) \<noteq> []
   \<and> windSpeed (forecasts (transform (Some sample_records) sample_location) ! 0) = []
   \<and> windSpeed (forecasts (transform (Some sample_records) sample_location) ! 1) = []"
  using windSpeed_always_empty [of "Some sample_records" sample_location]
  by (simp add: sample_forecasts)

text \<open>
  Claim C4, as amended. Take any period index \<open>i\<close> of the transformer's output. The inner
  loop visits every element block, so each field holds what the last block of its kind
  wrote, from that block's parameter value at \<open>i\<close> (\<open>PoP\<close> and \<open>PoP6h\<close> are one kind:
  both write \<open>rain\<close>). For that block: a \<open>PoP\<close> or \<open>PoP6h\<close> string \<open>v\<close> gives
  \<open>rain = v + "%"\<close> (so \<open>"60"\<close> gives \<open>"60%"\<close>); a \<open>MinT\<close> or \<open>MaxT\<close> string \<open>v\<close> gives
  \<open>minTemp\<close> or \<open>maxTemp\<close> \<open>= v\<close> followed by U+00B0 and \<open>C\<close>; \<open>Wx\<close> and \<open>CI\<close> strings are
  copied as they are into \<open>weather\<close> and \<open>comfort\<close>. A missing value or an empty string
  leaves the field the empty string, never a bare unit, and so does the absence of any
  block of the kind. Blocks whose name is none of the six the \<open>switch\<close> knows change
  nothing: the record is the one computed from the known blocks alone.
\<close>

theorem unit_tagging:
  fixes records :: "upstream_records option" and ld :: upstream_location and i :: nat
  defines "es \<equiv> weatherElements_of ld"
    and "fc \<equiv> forecasts (transform records ld) ! i"
  assumes "i < length (forecasts (transform records ld))"
  shows "(\<forall>e v. last_named [ascii ''PoP'', ascii ''PoP6h''] es = Some e
            \<and> element_value e i = Some (JsonString v) \<and> v \<noteq> []
            \<longrightarrow> rain fc = v @ ascii ''%'')
    \<and> (\<forall>e v. last_named [ascii ''MinT''] es = Some e
            \<and> element_value e i = Some (JsonString v) \<and> v \<noteq> []
            \<longrightarrow> minTemp fc = v @ [0x00B0, 0x0043])
    \<and> (\<forall>e v. last_named [ascii ''MaxT''] es = Some e
            \<and> element_value e i = Some (JsonString v) \<and> v \<noteq> []
            \<longrightarrow> maxTemp fc = v @ [0x00B0, 0x0043])
    \<and> (\<forall>e v. last_named [ascii ''Wx''] es = Some e
            \<and> element_value e i = Some (JsonString v) \<longrightarrow> weather fc = v)
    \<and> (\<forall>e v. last_named [ascii ''CI''] es = Some e
            \<and> element_value e i = Some (JsonString v) \<longrightarrow> comfort fc = v)
    \<and> (\<forall>e. last_named [ascii ''PoP'', ascii ''PoP6h''] es = Some e
            \<and> (element_value e i = None \<or> element_value e i = Some (JsonString []))
            \<longrightarrow> rain fc = [])
    \<and> (\<forall>e. last_named [ascii ''MinT''] es = Some e
            \<and> (element_value e i = None \<or> element_value e i = Some (JsonString []))
            \<longrightarrow> minTemp fc = [])
    \<and> (\<forall>e. last_named [ascii ''MaxT''] es = Some e
            \<and> (element_value e i = None \<or> element_value e i = Some (JsonString []))
            \<longrightarrow> maxTemp fc = [])
    \<and> (\<forall>e. last_named [ascii ''Wx''] es = Some e
            \<and> (element_value e i = None \<or> element_value e i = Some (JsonString []))
            \<longrightarrow> weather fc = [])
    \<and> (\<forall>e. last_named [ascii ''CI''] es = Some e
            \<and> (element_value e i = None \<or> element_value e i = Some (JsonString []))
            \<longrightarrow> comfort fc = [])
    \<and> (last_named [ascii ''PoP'', ascii ''PoP6h''] es = None \<longrightarrow> rain fc = [])
    \<and> (last_named [ascii ''MinT''] es = None \<longrightarrow> minTemp fc = [])
    \<and> (last_named [ascii ''MaxT''] es = None \<longrightarrow> maxTemp fc = [])
    \<and> (last_named [ascii ''Wx''] es = None \<longrightarrow> weather fc = [])
    \<and> (last_named [ascii ''CI''] es = None \<longrightarrow> comfort fc = [])
    \<and> fc = forecast_at (base_times es)
               (filter (\<lambda>e. elementName e \<in> Some ` set KNOWN_ELEMENTS) es) i"
proof -
  from assms(3) have fc: "fc = forecast_at (base_times es) es i"
    unfolding fc_def es_def by (rule transform_nth)
  have rain: "rain fc = (case last_named [ascii ''PoP'', ascii ''PoP6h''] es of
        None \<Rightarrow> [] | Some e \<Rightarrow> with_unit (element_value e i) (ascii ''%''))"
    by (simp add: fc forecast_at_rain)
  have minTemp: "minTemp fc = (case last_named [ascii ''MinT''] es of
        None \<Rightarrow> [] | Some e \<Rightarrow> with_unit (element_value e i) [0x00B0, 0x0043])"
    by (simp add: fc forecast_at_minTemp DEGREE_C_def split: option.split)
  have maxTemp: "maxTemp fc = (case last_named [ascii ''MaxT''] es of
        None \<Rightarrow> [] | Some e \<Rightarrow> with_unit (element_value e i) [0x00B0, 0x0043])"
    by (simp add: fc forecast_at_maxTemp DEGREE_C_def split: option.split)
  have weather: "weather fc = (case last_named [ascii ''Wx''] es of
        None \<Rightarrow> [] | Some e \<Rightarrow> value_or_empty (element_value e i))"
    by (simp add: fc forecast_at_weather)
  have comfort: "comfort fc = (case last_named [ascii ''CI''] es of
        None \<Rightarrow> [] | Some e \<Rightarrow> value_or_empty (element_value e i))"
    by (simp add: fc forecast_at_comfort)
  have known: "fc = forecast_at (base_times es)
               (filter (\<lambda>e. elementName e \<in> Some ` set KNOWN_ELEMENTS) es) i"
    by (simp add: fc forecast_at_known_only)
  show ?thesis
  proof (intro conjI allI impI)
    show "fc = forecast_at (base_times es)
               (filter (\<lambda>e. elementName e \<in> Some ` set KNOWN_ELEMENTS) es) i"
      by (rule known)
  qed (auto simp: rain minTemp maxTemp weather comfort)
qed

text \<open>
  The first period of the sample payload: \<open>PoP\<close> is \<open>"60"\<close>, \<open>MinT\<close> has no parameter,
  \<open>MaxT\<close> is \<open>"25"\<close>, \<open>Wx\<close> is U+6674 and \<open>CI\<close> is \<open>"fine"\<close>. In the second period
  \<open>MaxT\<close> is the empty string. The location without \<open>Wx\<close> has no block that writes
  \<open>weather\<close>.
\<close>

theorem unit_tagging_witness:
  "0 < length (forecasts (transform (Some sample_records) sample_location))
   \<and> last_named [ascii ''PoP'', ascii ''PoP6h''] (weatherElements_of sample_location)
       = Some sample_PoP
   \<and> element_value sample_PoP 0 = Some (JsonString (ascii ''60'')) \<and> ascii ''60'' \<noteq> []
   \<and> rain (forecasts (transform (Some sample_records) sample_location) ! 0) = ascii ''60%''
   \<and> last_named [ascii ''MinT''] (weatherElements_of sample_location) = Some sample_MinT
   \<and> element_value sample_MinT 0 = None
   \<and> minTemp (forecasts (transform (Some sample_records) sample_location) ! 0) = []
   \<and> last_named [ascii ''MaxT''] (weatherElements_of sample_location) = Some sample_MaxT
   \<and> element_value sample_MaxT 0 = Some (JsonString (ascii ''25'')) \<and> ascii ''25'' \<noteq> []
   \<and> maxTemp (forecasts (transform (Some sample_records) sample_location) ! 0)
       = ascii ''25'' @ [0x00B0, 0x0043]
   \<and> last_named [ascii ''Wx''] (weatherElements_of sample_location) = Some sample_Wx
   \<and> element_value sample_Wx 0 = Some (JsonString [0x6674])
   \<and> weather (forecasts (transform (Some sample_records) sample_location) ! 0) = [0x6674]
   \<and> last_named [ascii ''CI''] (weatherElements_of sample_location) = Some sample_CI
   \<and> element_value sample_CI 0 = Some (JsonString (ascii ''fine''))
   \<and> comfort (forecasts (transform (Some sample_records) sample_location) ! 0) = ascii ''fine''
   \<and> 1 < length (forecasts (transform (Some sample_records) sample_location))
   \<and> element_value sample_MaxT 1 = Some (JsonString [])
   \<and> maxTemp (forecasts (transform (Some sample_records) sample_location) ! 1) = []
   \<and> 0 < length (forecasts (transform None sample_no_Wx))
   \<and> last_named [ascii ''Wx''] (weatherElements_of sample_no_Wx) = None
   \<and> weather (forecasts (transform None sample_no_Wx) ! 0) = []"
proof -
  have l: "0 < length (forecasts (transform (Some sample_records) sample_location))"
    and l1: "1 < length (forecasts (transform (Some sample_records) sample_location))"
    by (simp_all add: sample_forecasts)
  have l2: "0 < length (forecasts (transform None sample_no_Wx))"
    by (simp add: sample_no_Wx_length)
  have n: "ascii ''60'' \<noteq> []" "ascii ''25'' \<noteq> []" "ascii ''60'' @ ascii ''%'' = ascii ''60%''"
    by (simp_all add: ascii_def)
  note v = sample_values [folded sample_weatherElements] sample_more_values
  note u = unit_tagging [OF l]
  note u1 = unit_tagging [OF l1]
  note u2 = unit_tagging [OF l2]
  from u v(2,7) n have 1:
    "rain (forecasts (transform (Some sample_records) sample_location) ! 0) = ascii ''60%''"
    by metis
  from u v(3,9) have 2:
    "minTemp (forecasts (transform (Some sample_records) sample_location) ! 0) = []"
    by metis
  from u v(4,10) n have 3:
    "maxTemp (forecasts (transform (Some sample_records) sample_location) ! 0)
       = ascii ''25'' @ [0x00B0, 0x0043]"
    by metis
  from u v(1,6) have 4:
    "weather (forecasts (transform (Some sample_records) sample_location) ! 0) = [0x6674]"
    by metis
  from u v(5,13) have 5:
    "comfort (forecasts (transform (Some sample_records) sample_location) ! 0) = ascii ''fine''"
    by metis
  from u1 v(4,11) have 6:
    "maxTemp (forecasts (transform (Some sample_records) sample_location) ! 1) = []"
    by metis
  from u2 v(14) have 7: "weather (forecasts (transform None sample_no_Wx) ! 0) = []"
    by metis
  from l l1 l2 v n 1 2 3 4 5 6 7 show ?thesis
    by simp
qed

text \<open>
  Claim C4 as first stated, for any block of the payload, fails: where a \<open>PoP\<close> block
  with the value \<open>"60"\<close> is followed by a \<open>PoP6h\<close> block with no \<open>time\<close>, the later
  block overwrites the field and \<open>rain\<close> is the empty string, not \<open>"60%"\<close>.
\<close>

theorem overwritten_rain_counterexample:
  "sample_PoP \<in> set (weatherElements_of sample_overwritten)
   \<and> elementName sample_PoP = Some (ascii ''PoP'')
   \<and> element_value sample_PoP 0 = Some (JsonString (ascii ''60''))
   \<and> 0 < length (forecasts (transform None sample_overwritten))
   \<and> rain (forecasts (transform None sample_overwritten) ! 0) = []
   \<and> rain (forecasts (transform None sample_overwritten) ! 0) \<noteq> ascii ''60%''"
proof -
  have "([] :: ustring) \<noteq> ascii ''60%''"
    by (simp add: ascii_def)
  with sample_overwritten_first [of None] show ?thesis
    by (simp add: sample_overwritten_values sample_values)
qed

text \<open>
  Claim C5, as amended. The timeline is the \<open>time\<close> list of the first element named \<open>Wx\<close>
  when there is one, and otherwise that of the first element block (empty when there is
  no block, or when the chosen block has no \<open>time\<close>). The output has one record per
  period of the timeline, with \<open>startTime\<close> and \<open>endTime\<close> read from it; with zero
  periods the forecast sequence is empty, and the handler sends it with status 200, not
  as an error. An element block with no entry at index \<open>i\<close> has no value there; such a
  block writes the empty string into its field, whatever the field held, and the field
  of the emitted record is the empty string when that block is the last of its kind.
\<close>

theorem authoritative_timeline:
  fixes records :: "upstream_records option" and ld :: upstream_location
  defines "es \<equiv> weatherElements_of ld"
    and "out \<equiv> forecasts (transform records ld)"
  shows "(\<forall>e. find (\<lambda>e. elementName e = Some (ascii ''Wx'')) es = Some e
            \<longrightarrow> base_times es = (case time e of None \<Rightarrow> [] | Some ts \<Rightarrow> ts))
    \<and> (find (\<lambda>e. elementName e = Some (ascii ''Wx'')) es = None
          \<longrightarrow> base_times es =
                (case es of [] \<Rightarrow> []
                 | e # rest \<Rightarrow> (case time e of None \<Rightarrow> [] | Some ts \<Rightarrow> ts)))
    \<and> length out = length (base_times es)
    \<and> (\<forall>i < length out.
          startTime (out ! i) = or_empty (t_startTime (base_times es ! i))
          \<and> endTime (out ! i) = or_empty (t_endTime (base_times es ! i)))
    \<and> (base_times es = [] \<longrightarrow> out = [])
    \<and> (\<forall>key req t1 t2 c c1.
          truthy key \<and> isValidLocation (normalizeLocation (request_input req))
          \<and> getCache t1 (normalizeLocation (request_input req)) c = (None, c1)
          \<and> pickFirstLocation records = Some ld \<and> base_times es = []
          \<longrightarrow> status (sent (getWeatherByLocation key (Resolved records) t1 t2 req c)) = 200
              \<and> success (body (sent (getWeatherByLocation key (Resolved records) t1 t2 req c)))
              \<and> map_option forecasts
                  (body_data (body (sent (getWeatherByLocation key (Resolved records)
                     t1 t2 req c)))) = Some [])
    \<and> (\<forall>e i. time e = None \<or> (\<exists>ts. time e = Some ts \<and> length ts \<le> i)
          \<longrightarrow> element_value e i = None)
    \<and> (\<forall>e i. i < length out \<and> element_value e i = None \<longrightarrow>
          (last_named [ascii ''Wx''] es = Some e \<longrightarrow> weather (out ! i) = [])
          \<and> (last_named [ascii ''PoP'', ascii ''PoP6h''] es = Some e \<longrightarrow> rain (out ! i) = [])
          \<and> (last_named [ascii ''MinT''] es = Some e \<longrightarrow> minTemp (out ! i) = [])
          \<and> (last_named [ascii ''MaxT''] es = Some e \<longrightarrow> maxTemp (out ! i) = [])
          \<and> (last_named [ascii ''CI''] es = Some e \<longrightarrow> comfort (out ! i) = []))
    \<and> (\<forall>e i fc. element_value e i = None \<longrightarrow>
          (elementName e = Some (ascii ''Wx'') \<longrightarrow> weather (apply_element i fc e) = [])
          \<and> (elementName e = Some (ascii ''PoP'') \<or> elementName e = Some (ascii ''PoP6h'')
                \<longrightarrow> rain (apply_element i fc e) = [])
          \<and> (elementName e = Some (ascii ''MinT'') \<longrightarrow> minTemp (apply_element i fc e) = [])
          \<and> (elementName e = Some (ascii ''MaxT'') \<longrightarrow> maxTemp (apply_element i fc e) = [])
          \<and> (elementName e = Some (ascii ''CI'') \<longrightarrow> comfort (apply_element i fc e) = []))"
proof (intro conjI allI impI)
  show len: "length out = length (base_times es)"
    unfolding out_def es_def by (rule transform_length)
  show "base_times es = (case time e of None \<Rightarrow> [] | Some ts \<Rightarrow> ts)"
    if "find (\<lambda>e. elementName e = Some (ascii ''Wx'')) es = Some e" for e
    using that by (rule base_times_Wx)
  show "base_times es =
      (case es of [] \<Rightarrow> [] | e # rest \<Rightarrow> (case time e of None \<Rightarrow> [] | Some ts \<Rightarrow> ts))"
    if "find (\<lambda>e. elementName e = Some (ascii ''Wx'')) es = None"
    using that by (rule base_times_first)
  show "out = []" if "base_times es = []"
    using that len by simp
  show "element_value e i = None"
    if "time e = None \<or> (\<exists>ts. time e = Some ts \<and> length ts \<le> i)" for e i
    using that by (rule element_value_beyond)
  have at: "out ! i = forecast_at (base_times es) es i" if "i < length out" for i
    using that unfolding out_def es_def by (rule transform_nth)
  show "startTime (out ! i) = or_empty (t_startTime (base_times es ! i))"
    if "i < length out" for i
    using that len by (simp add: at forecast_at_frame elem_at_def)
  show "endTime (out ! i) = or_empty (t_endTime (base_times es ! i))"
    if "i < length out" for i
    using that len by (simp add: at forecast_at_frame elem_at_def)
  show "weather (out ! i) = []"
    if "i < length out \<and> element_value e i = None" "last_named [ascii ''Wx''] es = Some e"
    for e i
    using that by (simp add: at forecast_at_weather)
  show "rain (out ! i) = []"
    if "i < length out \<and> element_value e i = None"
      "last_named [ascii ''PoP'', ascii ''PoP6h''] es = Some e"
    for e i
    using that by (simp add: at forecast_at_rain)
  show "minTemp (out ! i) = []"
    if "i < length out \<and> element_value e i = None" "last_named [ascii ''MinT''] es = Some e"
    for e i
    using that by (simp add: at forecast_at_minTemp)
  show "maxTemp (out ! i) = []"
    if "i < length out \<and> element_value e i = None" "last_named [ascii ''MaxT''] es = Some e"
    for e i
    using that by (simp add: at forecast_at_maxTemp)
  show "comfort (out ! i) = []"
    if "i < length out \<and> element_value e i = None" "last_named [ascii ''CI''] es = Some e"
    for e i
    using that by (simp add: at forecast_at_comfort)
  show "weather (apply_element i fc e) = []"
    if "element_value e i = None" "elementName e = Some (ascii ''Wx'')" for e i fc
    using that by (simp add: apply_element_weather)
  show "rain (apply_element i fc e) = []"
    if "element_value e i = None"
      "elementName e = Some (ascii ''PoP'') \<or> elementName e = Some (ascii ''PoP6h'')"
    for e i fc
    using that by (auto simp: apply_element_rain)
  show "minTemp (apply_element i fc e) = []"
    if "element_value e i = None" "elementName e = Some (ascii ''MinT'')" for e i fc
    using that by (simp add: apply_element_minTemp)
  show "maxTemp (apply_element i fc e) = []"
    if "element_value e i = None" "elementName e = Some (ascii ''MaxT'')" for e i fc
    using that by (simp add: apply_element_maxTemp)
  show "comfort (apply_element i fc e) = []"
    if "element_value e i = None" "elementName e = Some (ascii ''CI'')" for e i fc
    using that by (simp add: apply_element_comfort)
next
  fix key req t1 t2 and c c1 :: "jsval \<rightharpoonup> weatherData cache_entry"
  assume a: "truthy key \<and> isValidLocation (normalizeLocation (request_input req))
          \<and> getCache t1 (normalizeLocation (request_input req)) c = (None, c1)
          \<and> pickFirstLocation records = Some ld \<and> base_times es = []"
  then have h: "sent (getWeatherByLocation key (Resolved records) t1 t2 req c)
      = \<lparr>status = 200, body = succeeded (transform records ld)\<rparr>"
    using handler_miss [of key req t1 c c1 "Resolved records" t2] by simp
  from a have e: "forecasts (transform records ld) = []"
    by (simp add: transform_forecasts es_def)
  show "status (sent (getWeatherByLocation key (Resolved records) t1 t2 req c)) = 200"
    by (simp add: h)
  show "success (body (sent (getWeatherByLocation key (Resolved records) t1 t2 req c)))"
    by (simp add: h succeeded_def)
  show "map_option forecasts (body_data (body (sent (getWeatherByLocation key
      (Resolved records) t1 t2 req c)))) = Some []"
    by (simp add: h succeeded_def e)
qed

text \<open>
  The sample location (timeline from \<open>Wx\<close>, two periods; \<open>PoP\<close> has no second period),
  the one without \<open>Wx\<close> (timeline from \<open>PoP\<close>, one period) and the one without blocks,
  for which the handler answers 200; and a \<open>PoP6h\<close> block without \<open>time\<close> applied to a
  record whose \<open>rain\<close> is \<open>"60%"\<close>.
\<close>

theorem authoritative_timeline_witness:
  "find (\<lambda>e. elementName e = Some (ascii ''Wx'')) (weatherElements_of sample_location)
     = Some sample_Wx
   \<and> length (forecasts (transform None sample_location)) = 2
   \<and> find (\<lambda>e. elementName e = Some (ascii ''Wx'')) (weatherElements_of sample_no_Wx) = None
   \<and> length (forecasts (transform None sample_no_Wx)) = 1
   \<and> base_times (weatherElements_of sample_bare) = []
   \<and> forecasts (transform None sample_bare) = []
   \<and> (1::nat) < length (forecasts (transform None sample_location))
   \<and> element_value sample_PoP 1 = None
   \<and> last_named [ascii ''PoP'', ascii ''PoP6h''] (weatherElements_of sample_location)
       = Some sample_PoP
   \<and> rain (forecasts (transform None sample_location) ! 1) = []
   \<and> truthy (Some (ascii ''key''))
   \<and> isValidLocation (normalizeLocation (request_input bare_request))
   \<and> getCache 0 (normalizeLocation (request_input bare_request)) Map.empty = (None, Map.empty)
   \<and> pickFirstLocation (Some sample_bare_records) = Some sample_bare
   \<and> status (sent (getWeatherByLocation (Some (ascii ''key''))
         (Resolved (Some sample_bare_records)) 0 0 bare_request Map.empty)) = 200
   \<and> element_value sample_PoP6h_no_time 0 = None
   \<and> elementName sample_PoP6h_no_time = Some (ascii ''PoP6h'')
   \<and> rain (apply_element 0 (forecasts (transform None sample_location) ! 0)
         sample_PoP6h_no_time) = []"
proof -
  note a = authoritative_timeline [where ld = sample_location and records = None]
  note b = authoritative_timeline [where ld = sample_no_Wx and records = None]
  note c = authoritative_timeline [where ld = sample_bare and records = None]
  note d = authoritative_timeline [where ld = sample_bare
      and records = "Some sample_bare_records"]
  from a sample_timelines(1,5)
  have 1: "length (forecasts (transform None sample_location)) = 2"
    by simp
  from b sample_timelines(2,3,6)
  have 2: "length (forecasts (transform None sample_no_Wx)) = 1"
    by simp
  from c sample_timelines(4)
  have 3: "base_times (weatherElements_of sample_bare) = []"
    by simp
  with c have 4: "forecasts (transform None sample_bare) = []"
    by blast
  from 1 have 5: "(1::nat) < length (forecasts (transform None sample_location))"
    by simp
  note v = sample_values [folded sample_weatherElements]
  from a 5 v(2,8) have 6: "rain (forecasts (transform None sample_location) ! 1) = []"
    by blast
  have k: "isValidLocation (normalizeLocation (request_input bare_request))"
    by (simp add: bare_request_location)
  have g: "getCache 0 (normalizeLocation (request_input bare_request)) Map.empty
      = (None, Map.empty)"
    by (rule getCache_empty)
  from d sample_key k g sample_bare_first 3
  have 7: "status (sent (getWeatherByLocation (Some (ascii ''key''))
         (Resolved (Some sample_bare_records)) 0 0 bare_request Map.empty)) = 200"
    by blast
  have n: "elementName sample_PoP6h_no_time = Some (ascii ''PoP6h'')"
    by (simp add: sample_PoP6h_no_time_def)
  from a sample_overwritten_values(4) n
  have 8: "rain (apply_element 0 (forecasts (transform None sample_location) ! 0)
         sample_PoP6h_no_time) = []"
    by blast
  from sample_timelines(1,2) 1 2 3 4 5 6 v(2,8) sample_key k g sample_bare_first 7
    sample_overwritten_values(4) n 8
  show ?thesis
    by blast
qed

text \<open>
  Claim C5 as first stated, for any block lacking an entry, fails in its last part:
  where a \<open>PoP\<close> block with an empty \<open>time\<close> list is followed by a \<open>PoP6h\<close> block with
  the value \<open>"20"\<close>, the first block has no entry at index 0 and yet \<open>rain\<close> is \<open>"20%"\<close>,
  not the empty string.
\<close>

theorem covered_rain_counterexample:
  "sample_PoP_empty \<in> set (weatherElements_of sample_covered)
   \<and> elementName sample_PoP_empty = Some (ascii ''PoP'')
   \<and> time sample_PoP_empty = Some []
   \<and> element_value sample_PoP_empty 0 = None
   \<and> 0 < length (forecasts (transform None sample_covered))
   \<and> rain (forecasts (transform None sample_covered) ! 0) = ascii ''20%''
   \<and> rain (forecasts (transform None sample_covered) ! 0) \<noteq> []"
proof -
  have "ascii ''20%'' \<noteq> ([] :: ustring)"
    by (simp add: ascii_def)
  with sample_covered_first [of None] show ?thesis
    by (simp add: sample_covered_values)
qed

section \<open>The handler's properties\<close>

text \<open>
  Claim C8. Take a request that supplies none of \<open>?city=\<close>, \<open>?locationName=\<close> and the
  path parameters, handled with the API key configured. Its input location is U+9AD8
  U+96C4 U+5E02 (Kaohsiung City), and the handler goes on with that name: it is never
  rejected as a bad location; the cache is read under that name, and a live entry is
  sent back as cached data with no upstream request; on a miss exactly one upstream
  request is issued, with that name as \<open>locationName\<close>, and a payload with a first
  location is sent with status 200 and stored in the cache under that name, while a
  payload without one is answered 404 with that name in the message.
\<close>

theorem default_input_kaohsiung:
  assumes "query_city req = None" and "query_locationName req = None"
    and "params_city req = None" and "params_location req = None"
    and "truthy key"
  shows "request_input req = [0x9AD8, 0x96C4, 0x5E02]
    \<and> (\<forall>hit c1. getCache t1 (JStr [0x9AD8, 0x96C4, 0x5E02]) c = (Some hit, c1) \<longrightarrow>
          status (sent (getWeatherByLocation key ax t1 t2 req c)) = 200
          \<and> success (body (sent (getWeatherByLocation key ax t1 t2 req c)))
          \<and> body_data (body (sent (getWeatherByLocation key ax t1 t2 req c))) = Some hit
          \<and> cached (body (sent (getWeatherByLocation key ax t1 t2 req c))) = Some True
          \<and> cache_after (getWeatherByLocation key ax t1 t2 req c) = c1
          \<and> upstream_calls (getWeatherByLocation key ax t1 t2 req c) = [])
    \<and> (\<forall>c1. getCache t1 (JStr [0x9AD8, 0x96C4, 0x5E02]) c = (None, c1) \<longrightarrow>
          upstream_calls (getWeatherByLocation key ax t1 t2 req c)
            = [JStr [0x9AD8, 0x96C4, 0x5E02]]
          \<and> (\<forall>records ld. ax = Resolved records \<and> pickFirstLocation records = Some ld \<longrightarrow>
                status (sent (getWeatherByLocation key ax t1 t2 req c)) = 200
                \<and> success (body (sent (getWeatherByLocation key ax t1 t2 req c)))
                \<and> body_data (body (sent (getWeatherByLocation key ax t1 t2 req c)))
                    = Some (transform records ld)
                \<and> cache_after (getWeatherByLocation key ax t1 t2 req c)
                    = setCache t2 (JStr [0x9AD8, 0x96C4, 0x5E02]) (transform records ld) c1)
          \<and> (\<forall>records. ax = Resolved records \<and> pickFirstLocation records = None \<longrightarrow>
                status (sent (getWeatherByLocation key ax t1 t2 req c)) = 404
                \<and> message (body (sent (getWeatherByLocation key ax t1 t2 req c)))
                    = Some (MSG_NOT_FOUND (JStr [0x9AD8, 0x96C4, 0x5E02]))
                \<and> cache_after (getWeatherByLocation key ax t1 t2 req c) = c1))"
proof -
  from assms(1-4) have i: "request_input req = [0x9AD8, 0x96C4, 0x5E02]"
    by (simp add: request_input_def js_or_def truthy_def KAOHSIUNG_def)
  have k: "[0x9AD8, 0x96C4, 0x5E02] \<in> set VALID_LOCATIONS"
    using bare_request_location(2) by (simp add: KAOHSIUNG_def)
  then have n: "normalizeLocation (request_input req) = JStr [0x9AD8, 0x96C4, 0x5E02]"
    unfolding i by (rule normalizeLocation_canonical)
  from k n have v: "isValidLocation (normalizeLocation (request_input req))"
    by simp
  have hit: "getWeatherByLocation key a t1 t2 req c =
     \<lparr>sent = \<lparr>status = 200, body = (succeeded h)\<lparr>cached := Some True\<rparr>\<rparr>,
      cache_after = c1, upstream_calls = []\<rparr>"
    if "getCache t1 (JStr [0x9AD8, 0x96C4, 0x5E02]) c = (Some h, c1)" for h c1 a
    using handler_hit [OF assms(5) v, of t1 c h c1 a t2] that by (simp add: n)
  have miss: "getWeatherByLocation key a t1 t2 req c =
     (case a of
        Resolved records \<Rightarrow>
          (case pickFirstLocation records of
             None \<Rightarrow>
               \<lparr>sent = \<lparr>status = 404,
                        body = failure ERR_NOT_FOUND
                          (MSG_NOT_FOUND (JStr [0x9AD8, 0x96C4, 0x5E02]))\<rparr>,
                cache_after = c1,
                upstream_calls = [JStr [0x9AD8, 0x96C4, 0x5E02]]\<rparr>
           | Some locationData \<Rightarrow>
               \<lparr>sent = \<lparr>status = 200, body = succeeded (transform records locationData)\<rparr>,
                cache_after = setCache t2 (JStr [0x9AD8, 0x96C4, 0x5E02])
                  (transform records locationData) c1,
                upstream_calls = [JStr [0x9AD8, 0x96C4, 0x5E02]]\<rparr>)
      | Rejected_with_response st d \<Rightarrow>
          \<lparr>sent = \<lparr>status = st,
                   body = (failure ERR_UPSTREAM (upstream_message d))\<lparr>details := d\<rparr>\<rparr>,
           cache_after = c1, upstream_calls = [JStr [0x9AD8, 0x96C4, 0x5E02]]\<rparr>
      | Rejected_without_response \<Rightarrow>
          \<lparr>sent = \<lparr>status = 500, body = failure ERR_SERVER MSG_SERVER\<rparr>,
           cache_after = c1, upstream_calls = [JStr [0x9AD8, 0x96C4, 0x5E02]]\<rparr>)"
    if "getCache t1 (JStr [0x9AD8, 0x96C4, 0x5E02]) c = (None, c1)" for c1 a
  proof -
    from that have "getCache t1 (normalizeLocation (request_input req)) c = (None, c1)"
      by (simp add: n)
    from handler_miss [OF assms(5) v this, of a t2] show ?thesis
      unfolding n .
  qed
  show ?thesis
  proof (intro conjI allI impI)
    show "request_input req = [0x9AD8, 0x96C4, 0x5E02]"
      by (rule i)
  qed (auto simp: hit miss succeeded_def failure_def split: upstream_result.splits option.splits)
qed

text \<open>
  The request with no location at all, run twice: the first run fetches and stores the
  sample payload under the default name, the second finds it there.
\<close>

theorem default_input_kaohsiung_witness:
  "query_city bare_request = None \<and> query_locationName bare_request = None
   \<and> params_city bare_request = None \<and> params_location bare_request = None
   \<and> truthy (Some (ascii ''key''))
   \<and> getCache 0 (JStr [0x9AD8, 0x96C4, 0x5E02]) Map.empty = (None, Map.empty)
   \<and> pickFirstLocation (Some sample_records) = Some sample_location
   \<and> upstream_calls first_run = [JStr [0x9AD8, 0x96C4, 0x5E02]]
   \<and> status (sent first_run) = 200
   \<and> body_data (body (sent first_run))
       = Some (transform (Some sample_records) sample_location)
   \<and> cache_after first_run
       = setCache 5 (JStr [0x9AD8, 0x96C4, 0x5E02])
           (transform (Some sample_records) sample_location) Map.empty
   \<and> getCache 10 (JStr [0x9AD8, 0x96C4, 0x5E02]) (cache_after first_run)
       = (Some (transform (Some sample_records) sample_location), cache_after first_run)
   \<and> cached (body (sent second_run)) = Some True
   \<and> body_data (body (sent second_run))
       = Some (transform (Some sample_records) sample_location)
   \<and> upstream_calls second_run = []"
proof -
  have b: "query_city bare_request = None" "query_locationName bare_request = None"
    "params_city bare_request = None" "params_location bare_request = None"
    by (simp_all add: bare_request_def)
  have g: "getCache 0 (JStr [0x9AD8, 0x96C4, 0x5E02]) Map.empty = (None, Map.empty)"
    by (rule getCache_empty)
  have p: "pickFirstLocation (Some sample_records) = Some sample_location"
    using sample_first_location [of "datasetDescription sample_records"] by simp
  have l: "getCache 10 (JStr [0x9AD8, 0x96C4, 0x5E02]) (cache_after first_run)
       = (Some (transform (Some sample_records) sample_location), cache_after first_run)"
    using second_run_lookup by (simp add: KAOHSIUNG_def)
  note d1 = default_input_kaohsiung [OF b sample_key,
      of 0 Map.empty "Resolved (Some sample_records)" 5, folded first_run_def]
  note d2 = default_input_kaohsiung [OF b sample_key,
      of 10 "cache_after first_run" Rejected_without_response 10, folded second_run_def]
  from d1 g p have 1: "upstream_calls first_run = [JStr [0x9AD8, 0x96C4, 0x5E02]]
      \<and> status (sent first_run) = 200
      \<and> body_data (body (sent first_run))
          = Some (transform (Some sample_records) sample_location)
      \<and> cache_after first_run
          = setCache 5 (JStr [0x9AD8, 0x96C4, 0x5E02])
              (transform (Some sample_records) sample_location) Map.empty"
    by blast
  from d2 l have 2: "cached (body (sent second_run)) = Some True
      \<and> body_data (body (sent second_run))
          = Some (transform (Some sample_records) sample_location)
      \<and> upstream_calls second_run = []"
    by blast
  from b sample_key g p l 1 2 show ?thesis
    by blast
qed

text \<open>
  Claim C10. When the handler answers from a fresh upstream payload (the key is set, the
  location is valid, the cache has no live entry, and the payload has a first location),
  it sends status 200 with \<open>success\<close> set, and the \<open>updateTime\<close> of the data it sends is
  the payload's \<open>records.datasetDescription\<close> when that is present and not empty, and
  otherwise the fixed string U+4E09 U+5341 U+516D U+5C0F U+6642 U+5929 U+6C23 U+9810
  U+5831 ("thirty-six hour weather forecast"). The same holds for every successful
  response of a server that started with an empty cache, cached ones included: the data
  sent is the transform of a payload the upstream delivered, in this run or an earlier
  one, and its \<open>updateTime\<close> is that payload's description or the fixed string.
\<close>

theorem updateTime_from_description:
  fixes c :: "jsval \<rightharpoonup> weatherData cache_entry"
  shows "(truthy key \<and> isValidLocation (normalizeLocation (request_input req))
        \<and> getCache t1 (normalizeLocation (request_input req)) c = (None, c1)
        \<and> pickFirstLocation fresh = Some ld \<longrightarrow>
          status (sent (getWeatherByLocation key (Resolved fresh) t1 t2 req c)) = 200
          \<and> success (body (sent (getWeatherByLocation key (Resolved fresh) t1 t2 req c)))
          \<and> (\<forall>d. Option.bind fresh datasetDescription = Some d \<and> d \<noteq> [] \<longrightarrow>
                map_option updateTime
                  (body_data (body (sent (getWeatherByLocation key (Resolved fresh)
                     t1 t2 req c)))) = Some d)
          \<and> (Option.bind fresh datasetDescription = None
               \<or> Option.bind fresh datasetDescription = Some [] \<longrightarrow>
                map_option updateTime
                  (body_data (body (sent (getWeatherByLocation key (Resolved fresh)
                     t1 t2 req c))))
                = Some [0x4E09, 0x5341, 0x516D, 0x5C0F, 0x6642, 0x5929, 0x6C23, 0x9810,
                        0x5831]))
    \<and> (served c seen \<and> success (body (sent (getWeatherByLocation key ax t1 t2 req c)))
        \<longrightarrow>
          (\<exists>records \<in> seen \<union> fetched (getWeatherByLocation key ax t1 t2 req c) ax.
             (\<exists>ld. pickFirstLocation records = Some ld
                \<and> body_data (body (sent (getWeatherByLocation key ax t1 t2 req c)))
                    = Some (transform records ld))
             \<and> (\<forall>d. Option.bind records datasetDescription = Some d \<and> d \<noteq> [] \<longrightarrow>
                   map_option updateTime
                     (body_data (body (sent (getWeatherByLocation key ax t1 t2 req c))))
                   = Some d)
             \<and> (Option.bind records datasetDescription = None
                  \<or> Option.bind records datasetDescription = Some [] \<longrightarrow>
                   map_option updateTime
                     (body_data (body (sent (getWeatherByLocation key ax t1 t2 req c))))
                   = Some [0x4E09, 0x5341, 0x516D, 0x5C0F, 0x6642, 0x5929, 0x6C23, 0x9810,
                           0x5831])))"
proof (intro conjI)
  show "truthy key \<and> isValidLocation (normalizeLocation (request_input req))
        \<and> getCache t1 (normalizeLocation (request_input req)) c = (None, c1)
        \<and> pickFirstLocation fresh = Some ld \<longrightarrow>
          status (sent (getWeatherByLocation key (Resolved fresh) t1 t2 req c)) = 200
          \<and> success (body (sent (getWeatherByLocation key (Resolved fresh) t1 t2 req c)))
          \<and> (\<forall>d. Option.bind fresh datasetDescription = Some d \<and> d \<noteq> [] \<longrightarrow>
                map_option updateTime
                  (body_data (body (sent (getWeatherByLocation key (Resolved fresh)
                     t1 t2 req c)))) = Some d)
          \<and> (Option.bind fresh datasetDescription = None
               \<or> Option.bind fresh datasetDescription = Some [] \<longrightarrow>
                map_option updateTime
                  (body_data (body (sent (getWeatherByLocation key (Resolved fresh)
                     t1 t2 req c))))
                = Some [0x4E09, 0x5341, 0x516D, 0x5C0F, 0x6642, 0x5929, 0x6C23, 0x9810,
                        0x5831])"
  proof
    assume a: "truthy key \<and> isValidLocation (normalizeLocation (request_input req))
        \<and> getCache t1 (normalizeLocation (request_input req)) c = (None, c1)
        \<and> pickFirstLocation fresh = Some ld"
    then have "sent (getWeatherByLocation key (Resolved fresh) t1 t2 req c)
        = \<lparr>status = 200, body = succeeded (transform fresh ld)\<rparr>"
      using handler_miss [of key req t1 c c1 "Resolved fresh" t2] by simp
    then show "status (sent (getWeatherByLocation key (Resolved fresh) t1 t2 req c)) = 200
          \<and> success (body (sent (getWeatherByLocation key (Resolved fresh) t1 t2 req c)))
          \<and> (\<forall>d. Option.bind fresh datasetDescription = Some d \<and> d \<noteq> [] \<longrightarrow>
                map_option updateTime
                  (body_data (body (sent (getWeatherByLocation key (Resolved fresh)
                     t1 t2 req c)))) = Some d)
          \<and> (Option.bind fresh datasetDescription = None
               \<or> Option.bind fresh datasetDescription = Some [] \<longrightarrow>
                map_option updateTime
                  (body_data (body (sent (getWeatherByLocation key (Resolved fresh)
                     t1 t2 req c))))
                = Some [0x4E09, 0x5341, 0x516D, 0x5C0F, 0x6642, 0x5929, 0x6C23, 0x9810,
                        0x5831])"
      using transform_updateTime [of fresh _ ld] by (simp add: succeeded_def)
  qed
next
  let ?H = "getWeatherByLocation key ax t1 t2 req c"
  show "served c seen \<and> success (body (sent ?H)) \<longrightarrow>
          (\<exists>records \<in> seen \<union> fetched ?H ax.
             (\<exists>ld. pickFirstLocation records = Some ld
                \<and> body_data (body (sent ?H)) = Some (transform records ld))
             \<and> (\<forall>d. Option.bind records datasetDescription = Some d \<and> d \<noteq> [] \<longrightarrow>
                   map_option updateTime (body_data (body (sent ?H))) = Some d)
             \<and> (Option.bind records datasetDescription = None
                  \<or> Option.bind records datasetDescription = Some [] \<longrightarrow>
                   map_option updateTime (body_data (body (sent ?H)))
                   = Some [0x4E09, 0x5341, 0x516D, 0x5C0F, 0x6642, 0x5929, 0x6C23, 0x9810,
                           0x5831]))"
  proof
    assume a: "served c seen \<and> success (body (sent ?H))"
    have "\<exists>records ld. records \<in> seen \<union> fetched ?H ax
        \<and> pickFirstLocation records = Some ld
        \<and> body_data (body (sent ?H)) = Some (transform records ld)"
    proof -
      from a handler_success [of key ax t1 t2 req c]
      consider hit c1 where
          "getCache t1 (normalizeLocation (request_input req)) c = (Some hit, c1)"
          "body_data (body (sent ?H)) = Some hit"
        | records ld where "ax = Resolved records" "upstream_calls ?H \<noteq> []"
          "pickFirstLocation records = Some ld"
          "body_data (body (sent ?H)) = Some (transform records ld)"
        by blast
      then show ?thesis
      proof cases
        case 1
        from getCache_hit_entry [OF 1(1)] obtain e
          where "c (normalizeLocation (request_input req)) = Some e" "data e = hit"
          by blast
        with a served_entries [of c seen "normalizeLocation (request_input req)" e] 1(2)
        show ?thesis by auto
      next
        case 2
        then have "records \<in> fetched ?H ax"
          by (simp add: fetched_Resolved)
        with 2 show ?thesis by blast
      qed
    qed
    then obtain records ld where r: "records \<in> seen \<union> fetched ?H ax"
        "pickFirstLocation records = Some ld"
        "body_data (body (sent ?H)) = Some (transform records ld)"
      by blast
    show "\<exists>records \<in> seen \<union> fetched ?H ax.
             (\<exists>ld. pickFirstLocation records = Some ld
                \<and> body_data (body (sent ?H)) = Some (transform records ld))
             \<and> (\<forall>d. Option.bind records datasetDescription = Some d \<and> d \<noteq> [] \<longrightarrow>
                   map_option updateTime (body_data (body (sent ?H))) = Some d)
             \<and> (Option.bind records datasetDescription = None
                  \<or> Option.bind records datasetDescription = Some [] \<longrightarrow>
                   map_option updateTime (body_data (body (sent ?H)))
                   = Some [0x4E09, 0x5341, 0x516D, 0x5C0F, 0x6642, 0x5929, 0x6C23, 0x9810,
                           0x5831])"
    proof (rule bexI [OF _ r(1)], intro conjI allI impI)
      show "\<exists>ld. pickFirstLocation records = Some ld
          \<and> body_data (body (sent ?H)) = Some (transform records ld)"
        using r(2,3) by blast
      show "map_option updateTime (body_data (body (sent ?H))) = Some d"
        if "Option.bind records datasetDescription = Some d \<and> d \<noteq> []" for d
        using that transform_updateTime [of records d ld] by (simp add: r(3))
      show "map_option updateTime (body_data (body (sent ?H)))
          = Some [0x4E09, 0x5341, 0x516D, 0x5C0F, 0x6642, 0x5929, 0x6C23, 0x9810, 0x5831]"
        if "Option.bind records datasetDescription = None
            \<or> Option.bind records datasetDescription = Some []"
        using that transform_updateTime [of records _ ld] by (simp add: r(3))
    qed
  qed
qed

text \<open>
  A first run on the sample payload, the same run with the description removed, and a
  second run that is answered from the cache the first one filled.
\<close>

theorem updateTime_from_description_witness:
  "truthy (Some (ascii ''key''))
   \<and> isValidLocation (normalizeLocation (request_input bare_request))
   \<and> getCache 0 (normalizeLocation (request_input bare_request)) Map.empty = (None, Map.empty)
   \<and> pickFirstLocation (Some sample_records) = Some sample_location
   \<and> Option.bind (Some sample_records) datasetDescription = Some (ascii ''36h'')
   \<and> ascii ''36h'' \<noteq> []
   \<and> map_option updateTime (body_data (body (sent first_run))) = Some (ascii ''36h'')
   \<and> pickFirstLocation (Some (sample_records\<lparr>datasetDescription := None\<rparr>))
       = Some sample_location
   \<and> map_option updateTime
        (body_data (body (sent (getWeatherByLocation (Some (ascii ''key''))
           (Resolved (Some (sample_records\<lparr>datasetDescription := None\<rparr>))) 0 5
           bare_request Map.empty))))
       = Some [0x4E09, 0x5341, 0x516D, 0x5C0F, 0x6642, 0x5929, 0x6C23, 0x9810, 0x5831]
   \<and> served (cache_after first_run) {Some sample_records}
   \<and> success (body (sent second_run))
   \<and> cached (body (sent second_run)) = Some True
   \<and> map_option updateTime (body_data (body (sent second_run))) = Some (ascii ''36h'')"
proof -
  have v: "isValidLocation (normalizeLocation (request_input bare_request))"
    by (simp add: bare_request_location)
  have g: "getCache 0 (normalizeLocation (request_input bare_request)) Map.empty
      = (None, Map.empty)"
    by (rule getCache_empty)
  have p: "pickFirstLocation (Some sample_records) = Some sample_location"
    using sample_first_location [of "datasetDescription sample_records"] by simp
  have q: "pickFirstLocation (Some (sample_records\<lparr>datasetDescription := None\<rparr>))
      = Some sample_location"
    by (rule sample_first_location)
  have n: "Option.bind (Some (sample_records\<lparr>datasetDescription := None\<rparr>)) datasetDescription
      = None"
    by simp
  note u1 = updateTime_from_description [of "Some (ascii ''key'')" bare_request 0 Map.empty
      Map.empty "Some sample_records" sample_location 5, folded first_run_def]
  note u2 = updateTime_from_description [of "Some (ascii ''key'')" bare_request 0 Map.empty
      Map.empty "Some (sample_records\<lparr>datasetDescription := None\<rparr>)" sample_location 5]
  note u3 = updateTime_from_description [where c = "cache_after first_run"
      and seen = "{Some sample_records}" and key = "Some (ascii ''key'')"
      and ax = Rejected_without_response and ?t1.0 = 10 and ?t2.0 = 10
      and req = bare_request, folded second_run_def]
  from u1 sample_key v g p sample_description
  have 1: "map_option updateTime (body_data (body (sent first_run))) = Some (ascii ''36h'')"
    by blast
  from u2 sample_key v g q n
  have 2: "map_option updateTime
        (body_data (body (sent (getWeatherByLocation (Some (ascii ''key''))
           (Resolved (Some (sample_records\<lparr>datasetDescription := None\<rparr>))) 0 5
           bare_request Map.empty))))
       = Some [0x4E09, 0x5341, 0x516D, 0x5C0F, 0x6642, 0x5929, 0x6C23, 0x9810, 0x5831]"
    by blast
  have s: "success (body (sent second_run))" "cached (body (sent second_run)) = Some True"
    by (simp_all add: second_run_outcome succeeded_def)
  have f: "{Some sample_records} \<union> fetched second_run Rejected_without_response
      = {Some sample_records}"
    by (simp add: fetched_def)
  from u3 first_run_served s(1) sample_description
  have 3: "map_option updateTime (body_data (body (sent second_run))) = Some (ascii ''36h'')"
    unfolding f by blast
  from sample_key v g p q sample_description first_run_served s 1 2 3 show ?thesis
    by blast
qed

text \<open>
  Claim C2, as amended. With the API key configured, a request whose normalised location
  is empty gets status 400 with the parameter-error body, which carries no list of
  locations; a request whose normalised location is not empty and not one of the 22
  canonical names gets status 400 with a body that includes the full list of the 22
  allowed locations. In both cases the cache is untouched and no upstream request is made.
\<close>

theorem invalid_location_400:
  assumes "truthy key"
  shows "(normalizeLocation (request_input req) = JStr [] \<longrightarrow>
            status (sent (getWeatherByLocation key ax t1 t2 req c)) = 400
            \<and> \<not> success (body (sent (getWeatherByLocation key ax t1 t2 req c)))
            \<and> error (body (sent (getWeatherByLocation key ax t1 t2 req c))) = Some ERR_PARAM
            \<and> allowed (body (sent (getWeatherByLocation key ax t1 t2 req c))) = None
            \<and> cache_after (getWeatherByLocation key ax t1 t2 req c) = c
            \<and> upstream_calls (getWeatherByLocation key ax t1 t2 req c) = [])
    \<and> (normalizeLocation (request_input req) \<noteq> JStr []
          \<and> \<not> isValidLocation (normalizeLocation (request_input req)) \<longrightarrow>
            status (sent (getWeatherByLocation key ax t1 t2 req c)) = 400
            \<and> \<not> success (body (sent (getWeatherByLocation key ax t1 t2 req c)))
            \<and> error (body (sent (getWeatherByLocation key ax t1 t2 req c)))
                = Some ERR_UNSUPPORTED
            \<and> allowed (body (sent (getWeatherByLocation key ax t1 t2 req c)))
                = Some VALID_LOCATIONS
            \<and> cache_after (getWeatherByLocation key ax t1 t2 req c) = c
            \<and> upstream_calls (getWeatherByLocation key ax t1 t2 req c) = [])
    \<and> length VALID_LOCATIONS = 22 \<and> distinct VALID_LOCATIONS"
proof -
  have empty: "getWeatherByLocation key ax t1 t2 req c =
      \<lparr>sent = \<lparr>status = 400, body = failure ERR_PARAM MSG_PARAM\<rparr>,
       cache_after = c, upstream_calls = []\<rparr>"
    if "normalizeLocation (request_input req) = JStr []"
    using assms that by (rule handler_empty_location)
  have other: "getWeatherByLocation key ax t1 t2 req c =
     \<lparr>sent = \<lparr>status = 400,
              body = (failure ERR_UNSUPPORTED
                        (MSG_UNSUPPORTED (normalizeLocation (request_input req))))
                \<lparr>allowed := Some VALID_LOCATIONS, tip := Some TIP_LOCATIONS\<rparr>\<rparr>,
      cache_after = c, upstream_calls = []\<rparr>"
    if "normalizeLocation (request_input req) \<noteq> JStr []
      \<and> \<not> isValidLocation (normalizeLocation (request_input req))"
    using assms that by (simp add: handler_unsupported)
  show ?thesis
  proof (intro conjI impI)
    show "length VALID_LOCATIONS = 22" "distinct VALID_LOCATIONS"
      by (rule valid_count)+
  qed (simp_all add: empty other failure_def)
qed

text \<open>A request with \<open>?city=\<close> a single space, and one with the unsupported name "Mars".\<close>

theorem invalid_location_400_witness:
  "truthy (Some (ascii ''key''))
   \<and> normalizeLocation (request_input (city_request [0x20])) = JStr []
   \<and> status (sent (getWeatherByLocation (Some (ascii ''key'')) Rejected_without_response 0 0
         (city_request [0x20]) Map.empty)) = 400
   \<and> normalizeLocation (request_input (city_request [0x706B, 0x661F])) \<noteq> JStr []
   \<and> \<not> isValidLocation (normalizeLocation (request_input (city_request [0x706B, 0x661F])))
   \<and> status (sent (getWeatherByLocation (Some (ascii ''key'')) Rejected_without_response 0 0
         (city_request [0x706B, 0x661F]) Map.empty)) = 400
   \<and> allowed (body (sent (getWeatherByLocation (Some (ascii ''key''))
         Rejected_without_response 0 0 (city_request [0x706B, 0x661F]) Map.empty)))
       = Some VALID_LOCATIONS"
proof -
  have b: "normalizeLocation (request_input (city_request [0x20])) = JStr []"
    by (rule blank_location)
  have m: "normalizeLocation (request_input (city_request [0x706B, 0x661F])) \<noteq> JStr []
      \<and> \<not> isValidLocation (normalizeLocation (request_input (city_request [0x706B, 0x661F])))"
    by (simp add: mars_location)
  from invalid_location_400 [OF sample_key, of "city_request [0x20]"
      Rejected_without_response 0 0 Map.empty] b
  have 1: "status (sent (getWeatherByLocation (Some (ascii ''key'')) Rejected_without_response
      0 0 (city_request [0x20]) Map.empty)) = 400"
    by simp
  from invalid_location_400 [OF sample_key, of "city_request [0x706B, 0x661F]"
      Rejected_without_response 0 0 Map.empty] m
  have 2: "status (sent (getWeatherByLocation (Some (ascii ''key'')) Rejected_without_response
        0 0 (city_request [0x706B, 0x661F]) Map.empty)) = 400
      \<and> allowed (body (sent (getWeatherByLocation (Some (ascii ''key''))
         Rejected_without_response 0 0 (city_request [0x706B, 0x661F]) Map.empty)))
       = Some VALID_LOCATIONS"
    by blast
  from sample_key b m 1 2 show ?thesis
    by blast
qed

text \<open>
  Claim C2 as first stated fails for the location that is empty after normalisation: for
  \<open>?city=\<close> a single space the answer has status 400 but no list of allowed locations.
\<close>

theorem empty_location_counterexample:
  "normalizeLocation (request_input (city_request [0x20])) = JStr []
   \<and> status (sent (getWeatherByLocation (Some (ascii ''key'')) Rejected_without_response 0 0
         (city_request [0x20]) Map.empty)) = 400
   \<and> allowed (body (sent (getWeatherByLocation (Some (ascii ''key''))
         Rejected_without_response 0 0 (city_request [0x20]) Map.empty))) = None"
proof -
  note h = handler_empty_location [OF sample_key blank_location,
      of Rejected_without_response 0 0 Map.empty]
  show ?thesis
    by (simp add: h blank_location failure_def)
qed

text \<open>
  Claim C7. Take a request that reaches the upstream call (key configured, location
  valid, no live cache entry). When the call is rejected with an upstream response of
  status \<open>st\<close> and body \<open>d\<close>, the handler answers with status \<open>st\<close>, a failure body whose
  \<open>details\<close> is \<open>d\<close> and whose \<open>message\<close> is the \<open>message\<close> of \<open>d\<close> when it has a non-empty
  one. When the call is rejected without a response (network failure, timeout), the
  handler answers 500 with the fixed server-error body. Either way the handler returns a
  response, leaves the cache as the lookup left it, and has issued exactly one upstream
  request.
\<close>

theorem upstream_failure_response:
  assumes "truthy key"
    and "isValidLocation (normalizeLocation (request_input req))"
    and "getCache t1 (normalizeLocation (request_input req)) c = (None, c1)"
  shows "getWeatherByLocation key (Rejected_with_response st d) t1 t2 req c =
           \<lparr>sent = \<lparr>status = st,
                    body = \<lparr>success = False, error = Some ERR_UPSTREAM,
                            message = Some (upstream_message d), allowed = None, tip = None,
                            body_data = None, cached = None, details = d\<rparr>\<rparr>,
            cache_after = c1, upstream_calls = [normalizeLocation (request_input req)]\<rparr>
    \<and> (\<forall>obj m. d = Some obj \<and> obj (ascii ''message'') = Some m \<and> m \<noteq> []
          \<longrightarrow> upstream_message d = m)
    \<and> getWeatherByLocation key Rejected_without_response t1 t2 req c =
           \<lparr>sent = \<lparr>status = 500, body = failure ERR_SERVER MSG_SERVER\<rparr>,
            cache_after = c1, upstream_calls = [normalizeLocation (request_input req)]\<rparr>"
proof (intro conjI allI impI)
  show "getWeatherByLocation key (Rejected_with_response st d) t1 t2 req c =
           \<lparr>sent = \<lparr>status = st,
                    body = \<lparr>success = False, error = Some ERR_UPSTREAM,
                            message = Some (upstream_message d), allowed = None, tip = None,
                            body_data = None, cached = None, details = d\<rparr>\<rparr>,
            cache_after = c1, upstream_calls = [normalizeLocation (request_input req)]\<rparr>"
    using handler_miss [OF assms, of "Rejected_with_response st d" t2]
    by (simp add: failure_def)
  show "upstream_message d = m"
    if "d = Some obj \<and> obj (ascii ''message'') = Some m \<and> m \<noteq> []" for obj m
    using that by (simp add: upstream_message_def)
  show "getWeatherByLocation key Rejected_without_response t1 t2 req c =
           \<lparr>sent = \<lparr>status = 500, body = failure ERR_SERVER MSG_SERVER\<rparr>,
            cache_after = c1, upstream_calls = [normalizeLocation (request_input req)]\<rparr>"
    using handler_miss [OF assms, of Rejected_without_response t2]
    by simp
qed

text \<open>An upstream answer 503 with message \<open>busy\<close>, and a failure with no answer.\<close>

theorem upstream_failure_response_witness:
  "truthy (Some (ascii ''key''))
   \<and> isValidLocation (normalizeLocation (request_input bare_request))
   \<and> getCache 0 (normalizeLocation (request_input bare_request)) Map.empty = (None, Map.empty)
   \<and> [ascii ''message'' \<mapsto> ascii ''busy''] (ascii ''message'') = Some (ascii ''busy'')
   \<and> ascii ''busy'' \<noteq> []
   \<and> status (sent (getWeatherByLocation (Some (ascii ''key''))
         (Rejected_with_response 503 (Some [ascii ''message'' \<mapsto> ascii ''busy'']))
         0 0 bare_request Map.empty)) = 503
   \<and> message (body (sent (getWeatherByLocation (Some (ascii ''key''))
         (Rejected_with_response 503 (Some [ascii ''message'' \<mapsto> ascii ''busy'']))
         0 0 bare_request Map.empty))) = Some (ascii ''busy'')
   \<and> status (sent (getWeatherByLocation (Some (ascii ''key'')) Rejected_without_response
         0 0 bare_request Map.empty)) = 500"
proof -
  have v: "isValidLocation (normalizeLocation (request_input bare_request))"
    by (simp add: bare_request_location)
  have g: "getCache 0 (normalizeLocation (request_input bare_request)) Map.empty
      = (None, Map.empty)"
    by (rule getCache_empty)
  have m: "[ascii ''message'' \<mapsto> ascii ''busy''] (ascii ''message'') = Some (ascii ''busy'')
      \<and> ascii ''busy'' \<noteq> []"
    by (simp add: ascii_def)
  note u = upstream_failure_response [OF sample_key v g,
      of 503 "Some [ascii ''message'' \<mapsto> ascii ''busy'']" 0]
  from u m have e: "upstream_message (Some [ascii ''message'' \<mapsto> ascii ''busy''])
      = ascii ''busy''"
    by blast
  from u have 1: "status (sent (getWeatherByLocation (Some (ascii ''key''))
         (Rejected_with_response 503 (Some [ascii ''message'' \<mapsto> ascii ''busy'']))
         0 0 bare_request Map.empty)) = 503"
    by simp
  from u e have 2: "message (body (sent (getWeatherByLocation (Some (ascii ''key''))
         (Rejected_with_response 503 (Some [ascii ''message'' \<mapsto> ascii ''busy'']))
         0 0 bare_request Map.empty))) = Some (ascii ''busy'')"
    by simp
  from u have 3: "status (sent (getWeatherByLocation (Some (ascii ''key''))
         Rejected_without_response 0 0 bare_request Map.empty)) = 500"
    by simp
  from sample_key v g m 1 2 3 show ?thesis
    by blast
qed

end
